theory Spec2Isabelle
  imports Complex_Main
begin

section \<open>Activation functions of theanets (theanets/activations.py)\<close>

text \<open>
  The module builds activation functions for network layers: \<^verbatim>\<open>build\<close> resolves a
  name to a callable, the classes \<^verbatim>\<open>Prelu\<close>, \<^verbatim>\<open>LGrelu\<close> and \<^verbatim>\<open>Maxout\<close> own
  learnable tensors.  The embedding keeps Python's objects in an explicit heap, because
  \<^verbatim>\<open>build\<close> sets attributes on function objects (some of them module-level, hence
  shared between calls) and the constructors allocate shared tensors.

  Idealisations, stated once: tensor elements are real numbers (the source computes in
  \<^verbatim>\<open>floatX\<close>, where sums round and overflow); a Theano expression is identified with
  the value it denotes on the current heap; an object that a failed constructor leaves
  unreachable is kept in the heap, while the lambdas of the dictionary literal that
  \<^verbatim>\<open>build\<close> does not return are not represented; keyword arguments are \<^verbatim>\<open>None\<close>,
  integers or strings.
\<close>

subsection \<open>Errors and Python values\<close>

datatype error =
    TypeError
  | ValueError
  | KeyError string
  | AttributeError
  | NotImplementedError
  | ShapeError
  | UnknownActivation string

text \<open>Values that may be passed as keyword arguments.\<close>

datatype pyval = PNone | PInt int | PStr string

text \<open>Values of a \<^verbatim>\<open>name\<close> attribute: a string, or a list (what \<^verbatim>\<open>compose\<close> stores).\<close>

datatype pyname = NStr string | NList "pyname list"

type_synonym kwargs = "string \<rightharpoonup> pyval"

subsection \<open>Python's \<^verbatim>\<open>str\<close>, \<^verbatim>\<open>repr\<close> and \<^verbatim>\<open>split\<close> on strings\<close>

definition hex_digit :: "nat \<Rightarrow> char" where
  "hex_digit n = ''0123456789abcdef'' ! (n mod 16)"

text \<open>
  \<^verbatim>\<open>repr\<close> of one character inside the quotes \<open>q\<close>, for strings of bytes: the quote
  and the backslash are escaped, tab, newline and carriage return have their letters,
  any other byte outside the printable ASCII range is written in hexadecimal.
\<close>

definition repr_char :: "char \<Rightarrow> char \<Rightarrow> string" where
  "repr_char q c =
     (if c = q \<or> c = CHR 0x5C then [CHR 0x5C, c]
      else if c = CHR 0x09 then [CHR 0x5C, CHR ''t'']
      else if c = CHR 0x0A then [CHR 0x5C, CHR ''n'']
      else if c = CHR 0x0D then [CHR 0x5C, CHR ''r'']
      else if (of_char c :: nat) < 32 \<or> 127 \<le> (of_char c :: nat)
        then [CHR 0x5C, CHR ''x'', hex_digit (of_char c div 16), hex_digit (of_char c)]
      else [c])"

text \<open>Single quotes, unless the string has a single quote and no double quote.\<close>

definition py_repr :: "string \<Rightarrow> string" where
  "py_repr s =
     (let q = (if CHR 0x27 \<in> set s \<and> CHR 0x22 \<notin> set s then CHR 0x22 else CHR 0x27)
      in [q] @ concat (map (repr_char q) s) @ [q])"

fun join :: "string \<Rightarrow> string list \<Rightarrow> string" where
  "join sep [] = []"
| "join sep [x] = x"
| "join sep (x # y # ys) = x @ sep @ join sep (y # ys)"

text \<open>
  What \<^verbatim>\<open>'%s' % v\<close> prints: a string as it is, a list as the \<^verbatim>\<open>repr\<close> of its
  elements between brackets.
\<close>

fun py_str :: "pyname \<Rightarrow> string"
  and py_repr_name :: "pyname \<Rightarrow> string" where
  "py_str (NStr s) = s"
| "py_str (NList xs) = ''['' @ join '', '' (map py_repr_name xs) @ '']''"
| "py_repr_name (NStr s) = py_repr s"
| "py_repr_name (NList xs) = ''['' @ join '', '' (map py_repr_name xs) @ '']''"

text \<open>\<^verbatim>\<open>name.split('+')\<close>: empty pieces are kept, the result is never empty.\<close>

fun split_plus :: "string \<Rightarrow> string list" where
  "split_plus [] = [[]]"
| "split_plus (c # cs) =
     (if c = CHR ''+'' then [] # split_plus cs
      else (case split_plus cs of
              [] \<Rightarrow> [[c]]
            | w # ws \<Rightarrow> (c # w) # ws))"

subsection \<open>Arrays\<close>

text \<open>An array as numpy stores it: the shape and the elements in row-major order.\<close>

record ndarray =
  shape :: "nat list"
  data :: "real list"

text \<open>Every array of numpy has as many elements as its shape says.\<close>

definition well_formed :: "ndarray \<Rightarrow> bool" where
  "well_formed a = (length (data a) = prod_list (shape a))"

text \<open>
  \<^verbatim>\<open>np.ones(shape, FLOAT)\<close>.  numpy converts the dimensions to integers first
  (\<^verbatim>\<open>TypeError\<close> for a dimension that is not an integer) and then refuses a negative
  one (\<^verbatim>\<open>ValueError\<close>); a dimension of 0 is accepted and gives an empty array.
\<close>

fun is_int :: "pyval \<Rightarrow> bool" where
  "is_int (PInt i) = True"
| "is_int v = False"

fun int_of :: "pyval \<Rightarrow> int" where
  "int_of (PInt i) = i"
| "int_of v = 0"

definition np_ones :: "pyval list \<Rightarrow> error + ndarray" where
  "np_ones dims =
     (if \<not> list_all is_int dims then Inl TypeError
      else if \<not> list_all (\<lambda>d. 0 \<le> int_of d) dims then Inl ValueError
      else Inr \<lparr>shape = map (\<lambda>d. nat (int_of d)) dims,
                data = replicate (prod_list (map (\<lambda>d. nat (int_of d)) dims)) 1\<rparr>)"

text \<open>\<^verbatim>\<open>a * c\<close> for an array and a scalar.\<close>

definition np_scale :: "ndarray \<Rightarrow> real \<Rightarrow> ndarray" where
  "np_scale a c = a\<lparr>data := map (\<lambda>v. v * c) (data a)\<rparr>"

subsection \<open>Layers, objects and the heap\<close>

text \<open>
  The layer class is not part of this module.  The constructors read two things from
  it: \<^verbatim>\<open>layer.size\<close> and the naming function \<^verbatim>\<open>layer._fmt\<close>, which is taken as a
  parameter here.
\<close>

record layer =
  layer_size :: int
  layer_fmt :: "string \<Rightarrow> string"

text \<open>
  The four callables of the table that exist once per process: \<^verbatim>\<open>TT.tanh\<close>,
  \<^verbatim>\<open>TT.nnet.sigmoid\<close>, \<^verbatim>\<open>TT.nnet.softplus\<close> and this module's \<^verbatim>\<open>softmax\<close>.
\<close>

datatype modfn = TT_tanh | TT_nnet_sigmoid | TT_nnet_softplus | Softmax

text \<open>The lambdas of the table; the dictionary literal creates them anew at every call.\<close>

datatype lam =
    Linear | Relu | Rect_max | Rect_minmax
  | Norm_mean | Norm_max | Norm_std | Norm_z

datatype ref = Mod modfn | Addr nat

text \<open>
  What a function object computes.  \<open>Composed f g\<close> is the lambda of \<^verbatim>\<open>compose\<close>,
  \<^verbatim>\<open>lambda z: b(a(z))\<close> with \<open>f\<close> for \<^verbatim>\<open>a\<close> and \<open>g\<close> for \<^verbatim>\<open>b\<close>; \<open>Bound r\<close> calls
  the object at \<open>r\<close>, which is not a function object (an instance of a class, or an
  object that cannot be called).
\<close>

datatype code =
    Module modfn
  | Lambda lam
  | Bound ref
  | Composed code code

datatype cls = Base | Prelu | LGrelu | Maxout

text \<open>
  An instance of \<^verbatim>\<open>Activation\<close> or of a subclass: the four attributes that
  \<^verbatim>\<open>Activation.__init__\<close> sets, the tensors a subclass stores under an attribute name
  (\<^verbatim>\<open>leak\<close>, \<^verbatim>\<open>gain\<close>, \<^verbatim>\<open>slope\<close>, \<^verbatim>\<open>intercept\<close>) and \<^verbatim>\<open>self.pieces\<close>.
\<close>

record activation =
  i_cls :: cls
  i_name :: pyname
  i_layer :: layer
  i_kwargs :: kwargs
  i_params :: "ref list"
  i_tensors :: "string \<rightharpoonup> ref"
  i_pieces :: "pyval option"

text \<open>
  A heap object: a function object with its attributes \<^verbatim>\<open>name\<close> and \<^verbatim>\<open>params\<close>
  (\<open>None\<close> when the attribute is not set), an instance, or a shared variable of Theano
  with its name and its value.
\<close>

datatype obj =
    Function code "pyname option" "ref list option"
  | Instance activation
  | Shared string ndarray

record heap =
  mod_name :: "modfn \<Rightarrow> pyname option"
  mod_params :: "modfn \<Rightarrow> ref list option"
  next_addr :: nat
  cells :: "nat \<rightharpoonup> obj"

fun lookup :: "heap \<Rightarrow> ref \<Rightarrow> obj option" where
  "lookup h (Mod m) = Some (Function (Module m) (mod_name h m) (mod_params h m))"
| "lookup h (Addr a) = cells h a"

definition alloc :: "obj \<Rightarrow> heap \<Rightarrow> ref \<times> heap" where
  "alloc ob h =
     (Addr (next_addr h),
      h\<lparr>next_addr := Suc (next_addr h), cells := (cells h)(next_addr h \<mapsto> ob)\<rparr>)"

definition store :: "nat \<Rightarrow> obj \<Rightarrow> heap \<Rightarrow> heap" where
  "store a ob h = h\<lparr>cells := (cells h)(a \<mapsto> ob)\<rparr>"

text \<open>\<^verbatim>\<open>theano.shared(value, name=...)\<close> allocates a shared variable.\<close>

definition theano_shared :: "ndarray \<Rightarrow> string \<Rightarrow> heap \<Rightarrow> ref \<times> heap" where
  "theano_shared v nm h = alloc (Shared nm v) h"

text \<open>The heap after the module is imported: nothing allocated, no attribute set.\<close>

definition module_heap :: heap where
  "module_heap =
     \<lparr>mod_name = (\<lambda>m. None), mod_params = (\<lambda>m. None), next_addr = 0, cells = Map.empty\<rparr>"

subsection \<open>The transforms\<close>

definition elemwise :: "(real \<Rightarrow> real) \<Rightarrow> ndarray \<Rightarrow> ndarray" where
  "elemwise f x = x\<lparr>data := map f (data x)\<rparr>"

text \<open>The rows of the last axis, of length \<open>n\<close>, of row-major data.\<close>

fun chunks :: "nat \<Rightarrow> real list \<Rightarrow> real list list" where
  "chunks n xs = (if n = 0 \<or> xs = [] then [] else take n xs # chunks n (drop n xs))"

text \<open>
  A function of the rows of the last axis (\<^verbatim>\<open>axis=-1, keepdims=True\<close>, then
  broadcast back).  A tensor of rank 0 has no last axis.
\<close>

definition over_rows :: "(real list \<Rightarrow> real list) \<Rightarrow> ndarray \<Rightarrow> error + ndarray" where
  "over_rows f x =
     (if shape x = [] then Inl ValueError
      else Inr (x\<lparr>data := concat (map f (chunks (last (shape x)) (data x)))\<rparr>))"

definition mean :: "real list \<Rightarrow> real" where
  "mean r = sum_list r / real (length r)"

definition std :: "real list \<Rightarrow> real" where
  "std r = sqrt (mean (map (\<lambda>v. (v - mean r)\<^sup>2) r))"

text \<open>\<^verbatim>\<open>TT.cast(1e-6, FLOAT)\<close>.\<close>

definition eps :: real where
  "eps = 1 / 1000000"

text \<open>The maximum along an axis of length 0 is an error.\<close>

definition softmax :: "ndarray \<Rightarrow> error + ndarray" where
  "softmax x =
     (if shape x = [] \<or> last (shape x) = 0 then Inl ValueError
      else over_rows
        (\<lambda>r. let z = map (\<lambda>v. exp (v - Max (set r))) r
             in map (\<lambda>v. v / sum_list z) z) x)"

fun modfn_apply :: "modfn \<Rightarrow> ndarray \<Rightarrow> error + ndarray" where
  "modfn_apply TT_tanh x = Inr (elemwise tanh x)"
| "modfn_apply TT_nnet_sigmoid x = Inr (elemwise (\<lambda>v. 1 / (1 + exp (- v))) x)"
| "modfn_apply TT_nnet_softplus x = Inr (elemwise (\<lambda>v. ln (1 + exp v)) x)"
| "modfn_apply Softmax x = softmax x"

fun lam_apply :: "lam \<Rightarrow> ndarray \<Rightarrow> error + ndarray" where
  "lam_apply Linear x = Inr x"
| "lam_apply Relu x = Inr (elemwise (\<lambda>v. (v + \<bar>v\<bar>) / 2) x)"
| "lam_apply Rect_max x = Inr (elemwise (\<lambda>v. (1 + v - \<bar>v - 1\<bar>) / 2) x)"
| "lam_apply Rect_minmax x = Inr (elemwise (\<lambda>v. (1 + \<bar>v\<bar> - \<bar>v - 1\<bar>) / 2) x)"
| "lam_apply Norm_mean x = over_rows (\<lambda>r. map (\<lambda>v. v - mean r) r) x"
| "lam_apply Norm_max x =
     (if shape x = [] \<or> last (shape x) = 0 then Inl ValueError
      else over_rows (\<lambda>r. map (\<lambda>v. v / (Max (set (map abs r)) + eps)) r) x)"
| "lam_apply Norm_std x = over_rows (\<lambda>r. map (\<lambda>v. v / (std r + eps)) r) x"
| "lam_apply Norm_z x = over_rows (\<lambda>r. map (\<lambda>v. (v - mean r) / (std r + eps)) r) x"

text \<open>
  An elementwise operation of a tensor \<open>x\<close> with parameters indexed by the unit:
  \<open>f i v\<close> is the result for the element \<open>v\<close> of unit \<open>i\<close>, and \<open>n\<close> is the number of
  units of the parameters.  The last axis of \<open>x\<close> must have length \<open>n\<close> (shared
  variables are not broadcastable, so Theano does not stretch an axis of length 1);
  a tensor of rank 0, which has one element, is broadcast to the \<open>n\<close> units.
\<close>

definition with_last :: "nat \<Rightarrow> ndarray \<Rightarrow> (nat \<Rightarrow> real \<Rightarrow> real) \<Rightarrow> error + ndarray" where
  "with_last n x f =
     (if shape x = []
      then (case data x of
              [v] \<Rightarrow> Inr \<lparr>shape = [n], data = map (\<lambda>i. f i v) [0..<n]\<rparr>
            | _ \<Rightarrow> Inl ShapeError)
      else if last (shape x) = n
        then Inr (x\<lparr>data := map (\<lambda>(j, v). f (j mod n) v) (enumerate 0 (data x))\<rparr>)
      else Inl ShapeError)"

text \<open>The value of the shared variable that the attribute \<open>key\<close> of \<open>self\<close> refers to.\<close>

definition tensor_value :: "heap \<Rightarrow> activation \<Rightarrow> string \<Rightarrow> error + ndarray" where
  "tensor_value h self key =
     (case i_tensors self key of
        None \<Rightarrow> Inl AttributeError
      | Some r \<Rightarrow>
          (case lookup h r of
             Some (Shared nm v) \<Rightarrow> Inr v
           | _ \<Rightarrow> Inl TypeError))"

text \<open>\<^verbatim>\<open>Prelu.__call__\<close>: \<^verbatim>\<open>(x + abs(x)) / 2 + self.leak * (x - abs(x)) / 2\<close>.\<close>

definition Prelu_call :: "heap \<Rightarrow> activation \<Rightarrow> ndarray \<Rightarrow> error + ndarray" where
  "Prelu_call h self x =
     (case tensor_value h self ''leak'' of
        Inl e \<Rightarrow> Inl e
      | Inr leak \<Rightarrow>
          (case shape leak of
             [n] \<Rightarrow> with_last n x (\<lambda>i v. (v + \<bar>v\<bar>) / 2 + data leak ! i * (v - \<bar>v\<bar>) / 2)
           | _ \<Rightarrow> Inl ShapeError))"

text \<open>
  \<^verbatim>\<open>LGrelu.__call__\<close>:
  \<^verbatim>\<open>self.gain * (x + abs(x)) / 2 + self.leak * (x - abs(x)) / 2\<close>.
\<close>

definition LGrelu_call :: "heap \<Rightarrow> activation \<Rightarrow> ndarray \<Rightarrow> error + ndarray" where
  "LGrelu_call h self x =
     (case tensor_value h self ''gain'' of
        Inl e \<Rightarrow> Inl e
      | Inr gain \<Rightarrow>
          (case tensor_value h self ''leak'' of
             Inl e \<Rightarrow> Inl e
           | Inr leak \<Rightarrow>
               (case (shape gain, shape leak) of
                  ([n], [m]) \<Rightarrow>
                    if n = m
                    then with_last n x
                      (\<lambda>i v. data gain ! i * (v + \<bar>v\<bar>) / 2 + data leak ! i * (v - \<bar>v\<bar>) / 2)
                    else Inl ShapeError
                | _ \<Rightarrow> Inl ShapeError)))"

text \<open>
  \<^verbatim>\<open>Maxout.__call__\<close>: \<^verbatim>\<open>(x[..., None] * self.slope + self.intercept).max(axis=-1)\<close>.
  With \<open>slope\<close> of shape \<open>(n, p)\<close> and \<open>intercept\<close> of shape \<open>(p,)\<close> the product has
  shape \<open>(..., n, p)\<close>, the intercept is added along the last axis, and the maximum is
  taken over the \<open>p\<close> pieces; \<open>slope[i, k]\<close> is element \<open>i * p + k\<close> of the data.
\<close>

definition Maxout_call :: "heap \<Rightarrow> activation \<Rightarrow> ndarray \<Rightarrow> error + ndarray" where
  "Maxout_call h self x =
     (case tensor_value h self ''slope'' of
        Inl e \<Rightarrow> Inl e
      | Inr slope \<Rightarrow>
          (case tensor_value h self ''intercept'' of
             Inl e \<Rightarrow> Inl e
           | Inr intercept \<Rightarrow>
               (case (shape slope, shape intercept) of
                  ([n, p], [q]) \<Rightarrow>
                    if p \<noteq> q then Inl ShapeError
                    else if p = 0 then Inl ValueError
                    else with_last n x
                      (\<lambda>i v. Max (set (map
                         (\<lambda>k. v * data slope ! (i * p + k) + data intercept ! k) [0..<p])))
                | _ \<Rightarrow> Inl ShapeError)))"

text \<open>\<^verbatim>\<open>__call__\<close>, by the class of the instance; the base class raises.\<close>

definition method_call :: "heap \<Rightarrow> activation \<Rightarrow> ndarray \<Rightarrow> error + ndarray" where
  "method_call h self x =
     (case i_cls self of
        Base \<Rightarrow> Inl NotImplementedError
      | Prelu \<Rightarrow> Prelu_call h self x
      | LGrelu \<Rightarrow> LGrelu_call h self x
      | Maxout \<Rightarrow> Maxout_call h self x)"

text \<open>
  Running a callable on a tensor.  The heap is passed through and returned: no
  \<^verbatim>\<open>__call__\<close> of the module and no function of the table has an assignment to an
  attribute or to a shared variable.
\<close>

fun run :: "code \<Rightarrow> ndarray \<Rightarrow> heap \<Rightarrow> (error + ndarray) \<times> heap" where
  "run (Module m) x h = (modfn_apply m x, h)"
| "run (Lambda l) x h = (lam_apply l x, h)"
| "run (Bound r) x h =
     (case lookup h r of
        Some (Instance self) \<Rightarrow> (method_call h self x, h)
      | _ \<Rightarrow> (Inl TypeError, h))"
| "run (Composed f g) x h =
     (case run f x h of
        (Inl e, h') \<Rightarrow> (Inl e, h')
      | (Inr y, h') \<Rightarrow> run g y h')"

text \<open>
  The callable behind a reference: the code of a function object (calling it does not
  read its attributes, and nothing replaces its code), the object itself otherwise.
  A closure that captures a function object is modelled as capturing its code.
\<close>

definition code_of :: "heap \<Rightarrow> ref \<Rightarrow> code" where
  "code_of h r = (case lookup h r of Some (Function c nm ps) \<Rightarrow> c | _ \<Rightarrow> Bound r)"

text \<open>\<^verbatim>\<open>act(x)\<close> for the activation at \<open>r\<close>.\<close>

definition call :: "ref \<Rightarrow> ndarray \<Rightarrow> heap \<Rightarrow> (error + ndarray) \<times> heap" where
  "call r x h = run (code_of h r) x h"

subsection \<open>The constructors\<close>

text \<open>
  \<^verbatim>\<open>Activation.__init__\<close> sets \<^verbatim>\<open>name\<close>, \<^verbatim>\<open>layer\<close>, \<^verbatim>\<open>kwargs\<close> and an empty list of
  \<^verbatim>\<open>params\<close>; every subclass calls it first.
\<close>

definition Activation_init :: "cls \<Rightarrow> pyname \<Rightarrow> layer \<Rightarrow> kwargs \<Rightarrow> activation" where
  "Activation_init c nm l kw =
     \<lparr>i_cls = c, i_name = nm, i_layer = l, i_kwargs = kw, i_params = [],
      i_tensors = Map.empty, i_pieces = None\<rparr>"

text \<open>
  The rest of each \<^verbatim>\<open>__init__\<close>, from the instance as the base constructor left it
  to the instance as the constructor leaves it, or to the error it raises.
\<close>

definition Prelu_init :: "activation \<Rightarrow> heap \<Rightarrow> (error + activation) \<times> heap" where
  "Prelu_init self h =
     (case np_ones [PInt (layer_size (i_layer self))] of
        Inl e \<Rightarrow> (Inl e, h)
      | Inr a \<Rightarrow>
          (let (leak, h1) =
                 theano_shared (np_scale a (1 / 10)) (layer_fmt (i_layer self) ''leak'') h
           in (Inr (self\<lparr>i_tensors := (i_tensors self)(''leak'' \<mapsto> leak),
                          i_params := i_params self @ [leak]\<rparr>), h1)))"

definition LGrelu_init :: "activation \<Rightarrow> heap \<Rightarrow> (error + activation) \<times> heap" where
  "LGrelu_init self h =
     (case np_ones [PInt (layer_size (i_layer self))] of
        Inl e \<Rightarrow> (Inl e, h)
      | Inr a \<Rightarrow>
          (let (gain, h1) = theano_shared a (layer_fmt (i_layer self) ''gain'') h;
               self1 = self\<lparr>i_tensors := (i_tensors self)(''gain'' \<mapsto> gain),
                            i_params := i_params self @ [gain]\<rparr>
           in (case np_ones [PInt (layer_size (i_layer self))] of
                 Inl e \<Rightarrow> (Inl e, h1)
               | Inr b \<Rightarrow>
                   (let (leak, h2) =
                          theano_shared (np_scale b (1 / 10))
                            (layer_fmt (i_layer self) ''leak'') h1
                    in (Inr (self1\<lparr>i_tensors := (i_tensors self1)(''leak'' \<mapsto> leak),
                                    i_params := i_params self1 @ [leak]\<rparr>), h2)))))"

definition Maxout_init :: "activation \<Rightarrow> heap \<Rightarrow> (error + activation) \<times> heap" where
  "Maxout_init self h =
     (case i_kwargs self ''pieces'' of
        None \<Rightarrow> (Inl (KeyError ''pieces''), h)
      | Some pieces \<Rightarrow>
          (let self1 = self\<lparr>i_pieces := Some pieces\<rparr> in
           case np_ones [PInt (layer_size (i_layer self)), pieces] of
             Inl e \<Rightarrow> (Inl e, h)
           | Inr m \<Rightarrow>
               (let (slope, h1) = theano_shared m (layer_fmt (i_layer self) ''slope'') h;
                    self2 = self1\<lparr>i_tensors := (i_tensors self1)(''slope'' \<mapsto> slope),
                                  i_params := i_params self1 @ [slope]\<rparr>
                in (case np_ones [pieces] of
                      Inl e \<Rightarrow> (Inl e, h1)
                    | Inr b \<Rightarrow>
                        (let (intercept, h2) =
                               theano_shared b (layer_fmt (i_layer self) ''intercept'') h1
                         in (Inr (self2\<lparr>i_tensors :=
                                            (i_tensors self2)(''intercept'' \<mapsto> intercept),
                                          i_params := i_params self2 @ [intercept]\<rparr>),
                             h2))))))"

definition subclass_init :: "cls \<Rightarrow> activation \<Rightarrow> heap \<Rightarrow> (error + activation) \<times> heap" where
  "subclass_init c self h =
     (case c of
        Base \<Rightarrow> (Inr self, h)
      | Prelu \<Rightarrow> Prelu_init self h
      | LGrelu \<Rightarrow> LGrelu_init self h
      | Maxout \<Rightarrow> Maxout_init self h)"

text \<open>
  Calling a class, \<^verbatim>\<open>cls(name, layer, **kwargs)\<close>: the instance is allocated, then
  initialised.  When the constructor raises, the allocated instance stays behind,
  unreachable; the heap keeps it as the base constructor left it (what \<^verbatim>\<open>Maxout\<close>
  has assigned to \<^verbatim>\<open>self.pieces\<close> before the error is not recorded on it).
\<close>

definition new :: "cls \<Rightarrow> pyname \<Rightarrow> layer \<Rightarrow> kwargs \<Rightarrow> heap \<Rightarrow> (error + ref) \<times> heap" where
  "new c nm l kw h =
     (let a = next_addr h;
          self = Activation_init c nm l kw;
          h0 = snd (alloc (Instance self) h)
      in case subclass_init c self h0 of
           (Inl e, h1) \<Rightarrow> (Inl e, h1)
         | (Inr self', h1) \<Rightarrow> (Inr (Addr a), store a (Instance self') h1))"

subsection \<open>The registry\<close>

text \<open>
  Modelled from the spec: \<^verbatim>\<open>Activation.build\<close> is inherited from \<^verbatim>\<open>util.Registrar\<close>,
  which is not part of this module.  The spec: the registry maps a key to a constructor
  or to nothing; a key that is absent fails with an "unknown activation" error carrying
  the offending key; a key that is present instantiates the constructor with the name,
  the layer and the keyword arguments.  The content of the registry is a parameter.
\<close>

definition Activation_build ::
  "(string \<rightharpoonup> cls) \<Rightarrow> string \<Rightarrow> pyname \<Rightarrow> layer \<Rightarrow> kwargs \<Rightarrow> heap \<Rightarrow> (error + ref) \<times> heap"
where
  "Activation_build registry key nm l kw h =
     (case registry key of
        None \<Rightarrow> (Inl (UnknownActivation key), h)
      | Some c \<Rightarrow> new c nm l kw h)"

text \<open>
  Modelled from the spec: the registration itself is done by \<^verbatim>\<open>util.Registrar\<close>,
  which is not part of this module.  The spec: every variant registers under its
  canonical key, derived from its type identity and lower-cased, and under its declared
  alias keys; the aliases are the \<^verbatim>\<open>__extra_registration_keys__\<close> of this module.
  This registry serves the examples only; the properties hold for every registry.
\<close>

definition module_registry :: "string \<rightharpoonup> cls" where
  "module_registry =
     map_of [(''prelu'', Prelu), (''leaky-relu'', Prelu),
             (''lgrelu'', LGrelu), (''leaky-gain-relu'', LGrelu),
             (''maxout'', Maxout)]"

subsection \<open>\<^verbatim>\<open>build\<close>\<close>

text \<open>Reading \<^verbatim>\<open>r.name\<close>; a function object has the attribute only once it is set.\<close>

definition get_name :: "heap \<Rightarrow> ref \<Rightarrow> error + pyname" where
  "get_name h r =
     (case lookup h r of
        Some (Function c nm ps) \<Rightarrow> (case nm of None \<Rightarrow> Inl AttributeError | Some n \<Rightarrow> Inr n)
      | Some (Instance self) \<Rightarrow> Inr (i_name self)
      | Some (Shared nm v) \<Rightarrow> Inr (NStr nm)
      | None \<Rightarrow> Inl AttributeError)"

text \<open>\<^verbatim>\<open>f.name = v\<close> and \<^verbatim>\<open>f.params = ps\<close> for a function object \<open>f\<close>.\<close>

definition set_name :: "ref \<Rightarrow> pyname \<Rightarrow> heap \<Rightarrow> heap" where
  "set_name r v h =
     (case r of
        Mod m \<Rightarrow> h\<lparr>mod_name := (mod_name h)(m := Some v)\<rparr>
      | Addr a \<Rightarrow>
          (case cells h a of
             Some (Function c nm ps) \<Rightarrow> store a (Function c (Some v) ps) h
           | _ \<Rightarrow> h))"

definition set_params :: "ref \<Rightarrow> ref list \<Rightarrow> heap \<Rightarrow> heap" where
  "set_params r v h =
     (case r of
        Mod m \<Rightarrow> h\<lparr>mod_params := (mod_params h)(m := Some v)\<rparr>
      | Addr a \<Rightarrow>
          (case cells h a of
             Some (Function c nm ps) \<Rightarrow> store a (Function c nm (Some v)) h
           | _ \<Rightarrow> h))"

text \<open>
  The local function \<^verbatim>\<open>compose\<close> of \<^verbatim>\<open>build\<close>:
  \<^verbatim>\<open>c = lambda z: b(a(z)); c.name = ['%s(%s)' % (b.name, a.name)]; return c\<close>.
  The new function object gets a \<^verbatim>\<open>name\<close>, a list of one string, and no \<^verbatim>\<open>params\<close>.
\<close>

definition compose :: "ref \<Rightarrow> ref \<Rightarrow> heap \<Rightarrow> (error + ref) \<times> heap" where
  "compose a b h =
     (let (c, h1) = alloc (Function (Composed (code_of h a) (code_of h b)) None None) h
      in case get_name h1 b of
           Inl e \<Rightarrow> (Inl e, h1)
         | Inr bn \<Rightarrow>
             (case get_name h1 a of
                Inl e \<Rightarrow> (Inl e, h1)
              | Inr an \<Rightarrow>
                  (Inr c, set_name c (NList [NStr (py_str bn @ ''('' @ py_str an @ '')'')]) h1)))"

text \<open>
  \<^verbatim>\<open>functools.reduce(f, items)\<close> without an initial value, over a generator: each item
  is computed when the loop reaches it, and the first exception ends the loop.
\<close>

fun reduce_from ::
  "(ref \<Rightarrow> ref \<Rightarrow> heap \<Rightarrow> (error + ref) \<times> heap) \<Rightarrow> ref \<Rightarrow>
   (heap \<Rightarrow> (error + ref) \<times> heap) list \<Rightarrow> heap \<Rightarrow> (error + ref) \<times> heap" where
  "reduce_from f acc [] h = (Inr acc, h)"
| "reduce_from f acc (g # gs) h =
     (case g h of
        (Inl e, h1) \<Rightarrow> (Inl e, h1)
      | (Inr b, h1) \<Rightarrow>
          (case f acc b h1 of
             (Inl e, h2) \<Rightarrow> (Inl e, h2)
           | (Inr c, h2) \<Rightarrow> reduce_from f c gs h2))"

definition functools_reduce ::
  "(ref \<Rightarrow> ref \<Rightarrow> heap \<Rightarrow> (error + ref) \<times> heap) \<Rightarrow>
   (heap \<Rightarrow> (error + ref) \<times> heap) list \<Rightarrow> heap \<Rightarrow> (error + ref) \<times> heap" where
  "functools_reduce f gs h =
     (case gs of
        [] \<Rightarrow> (Inl TypeError, h)
      | g # gs' \<Rightarrow>
          (case g h of
             (Inl e, h1) \<Rightarrow> (Inl e, h1)
           | (Inr a, h1) \<Rightarrow> reduce_from f a gs' h1))"

text \<open>
  The dictionary of \<^verbatim>\<open>build\<close>: a key gives a module-level callable or a lambda of the
  literal.
\<close>

datatype entry = Global modfn | Fresh lam

definition act_table :: "string \<rightharpoonup> entry" where
  "act_table =
     map_of [(''tanh'', Global TT_tanh),
             (''logistic'', Global TT_nnet_sigmoid),
             (''sigmoid'', Global TT_nnet_sigmoid),
             (''softmax'', Global Softmax),
             (''linear'', Fresh Linear),
             (''softplus'', Global TT_nnet_softplus),
             (''relu'', Fresh Relu),
             (''rect:max'', Fresh Rect_max),
             (''rect:minmax'', Fresh Rect_minmax),
             (''norm:mean'', Fresh Norm_mean),
             (''norm:max'', Fresh Norm_max),
             (''norm:std'', Fresh Norm_std),
             (''norm:z'', Fresh Norm_z)]"

text \<open>The first argument of \<^verbatim>\<open>build\<close>: a string, or an object.\<close>

datatype name_arg = Key string | Obj ref

text \<open>
  \<^verbatim>\<open>build(name, layer, **kwargs)\<close>.  The parameter \<^verbatim>\<open>layer\<close> has no default value:
  a call that does not pass it (\<open>None\<close> here) raises \<^verbatim>\<open>TypeError\<close> before the body
  runs, and that is the call \<^verbatim>\<open>build(n)\<close> of the branch for names with a \<^verbatim>\<open>+\<close>.
  An object that is not an instance of \<^verbatim>\<open>Activation\<close> reaches \<^verbatim>\<open>'+' in name\<close>, which
  raises \<^verbatim>\<open>TypeError\<close> for an object that is not a container.
\<close>

function build ::
  "(string \<rightharpoonup> cls) \<Rightarrow> name_arg \<Rightarrow> layer option \<Rightarrow> kwargs \<Rightarrow> heap \<Rightarrow> (error + ref) \<times> heap"
where
  "build registry nm None kw h = (Inl TypeError, h)"
| "build registry (Obj r) (Some l) kw h =
     (case lookup h r of
        Some (Instance self) \<Rightarrow> (Inr r, h)
      | _ \<Rightarrow> (Inl TypeError, h))"
| "build registry (Key s) (Some l) kw h =
     (if CHR ''+'' \<in> set s
      then functools_reduce compose
             (map (\<lambda>n h'. build registry (Key n) None Map.empty h') (split_plus s)) h
      else (case act_table s of
              Some e \<Rightarrow>
                (let (act, h1) =
                       (case e of
                          Global m \<Rightarrow> (Mod m, h)
                        | Fresh f \<Rightarrow> alloc (Function (Lambda f) None None) h)
                 in (Inr act, set_params act [] (set_name act (NStr s) h1)))
            | None \<Rightarrow> Activation_build registry s (NStr s) l kw h))"
  by pat_completeness auto
termination
  by (relation "measure (\<lambda>(registry, nm, l, kw, h). case l of None \<Rightarrow> 0 | Some x \<Rightarrow> 1)") auto

subsection \<open>Reading and updating a heap\<close>

text \<open>
  The allocator's invariant: no object lives at or above the next free address.  It
  holds after the module is imported, and every operation here keeps it.
\<close>

definition heap_ok :: "heap \<Rightarrow> bool" where
  "heap_ok h = (\<forall>a. next_addr h \<le> a \<longrightarrow> cells h a = None)"

text \<open>Reading \<^verbatim>\<open>r.params\<close>, the list of learnable tensors of an activation.\<close>

definition get_params :: "heap \<Rightarrow> ref \<Rightarrow> error + ref list" where
  "get_params h r =
     (case lookup h r of
        Some (Function c nm ps) \<Rightarrow>
          (case ps of None \<Rightarrow> Inl AttributeError | Some p \<Rightarrow> Inr p)
      | Some (Instance self) \<Rightarrow> Inr (i_params self)
      | _ \<Rightarrow> Inl AttributeError)"

text \<open>
  \<^verbatim>\<open>shared.set_value(v)\<close>, the update the optimizer makes; nothing in this module
  calls it.
\<close>

definition set_value :: "ref \<Rightarrow> ndarray \<Rightarrow> heap \<Rightarrow> heap" where
  "set_value r v h =
     (case r of
        Addr a \<Rightarrow>
          (case cells h a of
             Some (Shared nm w) \<Rightarrow> store a (Shared nm v) h
           | _ \<Rightarrow> h)
      | Mod m \<Rightarrow> h)"

subsection \<open>Examples\<close>

text \<open>A layer of three units and a layer of one unit.\<close>

definition example_layer :: layer where
  "example_layer = \<lparr>layer_size = 3, layer_fmt = (\<lambda>s. ''hid1.'' @ s)\<rparr>"

definition unit_layer :: layer where
  "unit_layer = \<lparr>layer_size = 1, layer_fmt = (\<lambda>s. ''out.'' @ s)\<rparr>"

text \<open>The heap after \<^verbatim>\<open>Prelu('prelu', layer)\<close> on the layer of three units.\<close>

definition prelu_heap :: heap where
  "prelu_heap = snd (new Prelu (NStr ''prelu'') example_layer Map.empty module_heap)"

text \<open>The heap after \<^verbatim>\<open>Maxout('maxout', layer, pieces=2)\<close> on the layer of three units.\<close>

definition maxout_heap :: heap where
  "maxout_heap =
     snd (new Maxout (NStr ''maxout'') example_layer [''pieces'' \<mapsto> PInt 2] module_heap)"

text \<open>
  A maxout of two pieces on the layer of one unit, after the optimizer has set the
  slope to \<open>[[0, 1]]\<close> and the intercept to \<open>[0, 0]\<close>.
\<close>

definition relu_maxout_heap :: heap where
  "relu_maxout_heap =
     set_value (Addr 2) \<lparr>shape = [2], data = [0, 0]\<rparr>
       (set_value (Addr 1) \<lparr>shape = [1, 2], data = [0, 1]\<rparr>
          (snd (new Maxout (NStr ''maxout'') unit_layer [''pieces'' \<mapsto> PInt 2] module_heap)))"

text \<open>
  The heap after \<^verbatim>\<open>LGrelu('lgrelu', layer)\<close> and then \<^verbatim>\<open>Prelu('prelu', layer)\<close> on
  the layer of three units: the first instance is at address 0, the second at 3.
\<close>

definition lgrelu_prelu_heap :: heap where
  "lgrelu_prelu_heap =
     snd (new Prelu (NStr ''prelu'') example_layer Map.empty
       (snd (new LGrelu (NStr ''lgrelu'') example_layer Map.empty module_heap)))"

text \<open>
  The heap after \<^verbatim>\<open>build('tanh', layer)\<close> and then \<^verbatim>\<open>build('relu', layer)\<close>: the
  first activation is the module-level \<^verbatim>\<open>TT.tanh\<close>, the second a lambda at address 0.
\<close>

definition tanh_relu_heap :: heap where
  "tanh_relu_heap =
     snd (build Map.empty (Key ''relu'') (Some example_layer) Map.empty
       (snd (build Map.empty (Key ''tanh'') (Some example_layer) Map.empty module_heap)))"

section \<open>Properties\<close>

subsection \<open>The branches of \<^verbatim>\<open>build\<close>\<close>

lemma build_plus:
  assumes "CHR ''+'' \<in> set s"
  shows "build registry (Key s) (Some l) kw h = (Inl TypeError, h)"
  using assms by (cases "split_plus s") (simp_all add: functools_reduce_def)

lemma build_fresh:
  assumes "act_table s = Some (Fresh f)" and "CHR ''+'' \<notin> set s"
  shows "build registry (Key s) (Some l) kw h =
     (Inr (Addr (next_addr h)),
      h\<lparr>next_addr := Suc (next_addr h),
        cells := (cells h)(next_addr h \<mapsto> Function (Lambda f) (Some (NStr s)) (Some []))\<rparr>)"
  using assms by (simp add: alloc_def set_name_def set_params_def store_def)

lemma build_global:
  assumes "act_table s = Some (Global m)" and "CHR ''+'' \<notin> set s"
  shows "build registry (Key s) (Some l) kw h =
     (Inr (Mod m),
      h\<lparr>mod_name := (mod_name h)(m := Some (NStr s)),
        mod_params := (mod_params h)(m := Some [])\<rparr>)"
  using assms by (simp add: set_name_def set_params_def)

lemma build_registry:
  assumes "act_table s = None" and "CHR ''+'' \<notin> set s"
  shows "build registry (Key s) (Some l) kw h = Activation_build registry s (NStr s) l kw h"
  using assms by simp

lemma build_obj:
  "build registry (Obj r) (Some l) kw h =
     (case lookup h r of
        Some (Instance self) \<Rightarrow> (Inr r, h)
      | _ \<Rightarrow> (Inl TypeError, h))"
  by simp

lemma build_no_layer: "build registry nm None kw h = (Inl TypeError, h)"
  by simp

declare build.simps [simp del]

subsection \<open>The constructors, step by step\<close>

lemmas new_defs = new_def Activation_init_def alloc_def subclass_init_def theano_shared_def
  store_def np_ones_def np_scale_def Let_def

lemma new_Prelu:
  assumes "0 \<le> layer_size l"
  shows "new Prelu nm l kw h =
     (Inr (Addr (next_addr h)),
      h\<lparr>next_addr := Suc (Suc (next_addr h)),
        cells := (cells h)
          (Suc (next_addr h) \<mapsto>
             Shared (layer_fmt l ''leak'')
               \<lparr>shape = [nat (layer_size l)], data = replicate (nat (layer_size l)) (1 / 10)\<rparr>,
           next_addr h \<mapsto>
             Instance \<lparr>i_cls = Prelu, i_name = nm, i_layer = l, i_kwargs = kw,
               i_params = [Addr (Suc (next_addr h))],
               i_tensors = [''leak'' \<mapsto> Addr (Suc (next_addr h))],
               i_pieces = None\<rparr>)\<rparr>)"
  using assms by (simp add: new_defs Prelu_init_def)

lemma new_LGrelu:
  assumes "0 \<le> layer_size l"
  shows "new LGrelu nm l kw h =
     (Inr (Addr (next_addr h)),
      h\<lparr>next_addr := Suc (Suc (Suc (next_addr h))),
        cells := (cells h)
          (Suc (next_addr h) \<mapsto>
             Shared (layer_fmt l ''gain'')
               \<lparr>shape = [nat (layer_size l)], data = replicate (nat (layer_size l)) 1\<rparr>,
           Suc (Suc (next_addr h)) \<mapsto>
             Shared (layer_fmt l ''leak'')
               \<lparr>shape = [nat (layer_size l)], data = replicate (nat (layer_size l)) (1 / 10)\<rparr>,
           next_addr h \<mapsto>
             Instance \<lparr>i_cls = LGrelu, i_name = nm, i_layer = l, i_kwargs = kw,
               i_params = [Addr (Suc (next_addr h)), Addr (Suc (Suc (next_addr h)))],
               i_tensors = [''gain'' \<mapsto> Addr (Suc (next_addr h)),
                            ''leak'' \<mapsto> Addr (Suc (Suc (next_addr h)))],
               i_pieces = None\<rparr>)\<rparr>)"
  using assms by (simp add: new_defs LGrelu_init_def)

lemma new_Maxout:
  assumes "0 \<le> layer_size l" and "kw ''pieces'' = Some (PInt p)" and "0 \<le> p"
  shows "new Maxout nm l kw h =
     (Inr (Addr (next_addr h)),
      h\<lparr>next_addr := Suc (Suc (Suc (next_addr h))),
        cells := (cells h)
          (Suc (next_addr h) \<mapsto>
             Shared (layer_fmt l ''slope'')
               \<lparr>shape = [nat (layer_size l), nat p],
                 data = replicate (nat (layer_size l) * nat p) 1\<rparr>,
           Suc (Suc (next_addr h)) \<mapsto>
             Shared (layer_fmt l ''intercept'')
               \<lparr>shape = [nat p], data = replicate (nat p) 1\<rparr>,
           next_addr h \<mapsto>
             Instance \<lparr>i_cls = Maxout, i_name = nm, i_layer = l, i_kwargs = kw,
               i_params = [Addr (Suc (next_addr h)), Addr (Suc (Suc (next_addr h)))],
               i_tensors = [''slope'' \<mapsto> Addr (Suc (next_addr h)),
                            ''intercept'' \<mapsto> Addr (Suc (Suc (next_addr h)))],
               i_pieces = Some (PInt p)\<rparr>)\<rparr>)"
  using assms by (simp add: new_defs Maxout_init_def)

lemma new_Maxout_no_pieces:
  assumes "kw ''pieces'' = None"
  shows "new Maxout nm l kw h =
     (Inl (KeyError ''pieces''), snd (alloc (Instance (Activation_init Maxout nm l kw)) h))"
  using assms by (simp add: new_defs Maxout_init_def)

lemma new_Maxout_not_int:
  assumes "kw ''pieces'' = Some v" and "\<not> is_int v"
  shows "fst (new Maxout nm l kw h) = Inl TypeError"
  using assms by (simp add: new_defs Maxout_init_def)

lemma new_Maxout_negative:
  assumes "kw ''pieces'' = Some (PInt p)" and "p < 0"
  shows "fst (new Maxout nm l kw h) = Inl ValueError"
  using assms by (simp add: new_defs Maxout_init_def)

lemma new_Maxout_success:
  assumes "new Maxout nm l kw h = (Inr act, h')"
  shows "\<exists>p. kw ''pieces'' = Some (PInt p) \<and> 0 \<le> p \<and> 0 \<le> layer_size l"
proof (cases "kw ''pieces''")
  case None
  with assms show ?thesis by (simp add: new_Maxout_no_pieces)
next
  case (Some v)
  show ?thesis
  proof (cases v)
    case (PInt p)
    with assms Some show ?thesis
      by (simp add: new_defs Maxout_init_def split: if_splits)
  next
    case PNone
    with assms Some new_Maxout_not_int[of kw v nm l h] show ?thesis by simp
  next
    case (PStr s)
    with assms Some new_Maxout_not_int[of kw v nm l h] show ?thesis by simp
  qed
qed

subsection \<open>The transforms, element by element\<close>

lemma call_Instance:
  assumes "lookup h r = Some (Instance self)"
  shows "call r x h = (method_call h self x, h)"
  using assms by (simp add: call_def code_of_def)

lemma with_last_data:
  assumes "shape x \<noteq> []" and "last (shape x) = n"
  shows "\<exists>y. with_last n x f = Inr y \<and> shape y = shape x \<and>
           length (data y) = length (data x) \<and>
           (\<forall>j<length (data x). data y ! j = f (j mod n) (data x ! j))"
  using assms by (simp add: with_last_def nth_enumerate_eq)

lemma prelu_scalar:
  "(v + \<bar>v\<bar>) / 2 + c * (v - \<bar>v\<bar>) / 2 = (if 0 \<le> v then v else c * (v::real))"
  by simp

lemma Prelu_call_data:
  assumes "tensor_value h self ''leak'' = Inr leak" and "shape leak = [n]"
    and "shape x \<noteq> []" and "last (shape x) = n"
  shows "\<exists>y. Prelu_call h self x = Inr y \<and> shape y = shape x \<and>
           length (data y) = length (data x) \<and>
           (\<forall>j<length (data x). data y ! j =
              (if 0 \<le> data x ! j then data x ! j else data leak ! (j mod n) * data x ! j))"
  using assms with_last_data[of x n "\<lambda>i v. (v + \<bar>v\<bar>) / 2 + data leak ! i * (v - \<bar>v\<bar>) / 2"]
  by (simp add: Prelu_call_def prelu_scalar)

lemma Maxout_call_eq:
  assumes "tensor_value h self ''slope'' = Inr slope" and "shape slope = [n, p]"
    and "tensor_value h self ''intercept'' = Inr intercept" and "shape intercept = [p]"
    and "0 < p"
  shows "Maxout_call h self x =
     with_last n x (\<lambda>i v. Max (set (map
        (\<lambda>k. v * data slope ! (i * p + k) + data intercept ! k) [0..<p])))"
  using assms by (simp add: Maxout_call_def)

lemma max_pieces:
  fixes v :: real and s b :: "nat \<Rightarrow> real"
  shows "Max (set (map (\<lambda>k. v * s k + b k) [0..<p])) = Max ((\<lambda>k. s k * v + b k) ` {..<p})"
proof -
  have "(\<lambda>k. v * s k + b k) = (\<lambda>k. s k * v + b k)"
    by (simp add: mult.commute)
  then show ?thesis
    by (simp add: atLeast0LessThan)
qed

lemma Maxout_call_data:
  assumes "tensor_value h self ''slope'' = Inr slope" and "shape slope = [n, p]"
    and "tensor_value h self ''intercept'' = Inr intercept" and "shape intercept = [p]"
    and "0 < p" and "shape x \<noteq> []" and "last (shape x) = n"
  shows "\<exists>y. Maxout_call h self x = Inr y \<and> shape y = shape x \<and>
           length (data y) = length (data x) \<and>
           (\<forall>j<length (data x). data y ! j =
              Max ((\<lambda>k. data slope ! ((j mod n) * p + k) * data x ! j + data intercept ! k)
                   ` {..<p}))"
proof -
  let ?f = "\<lambda>i v. Max (set (map
        (\<lambda>k. v * data slope ! (i * p + k) + data intercept ! k) [0..<p]))"
  from with_last_data[OF assms(6,7), of ?f]
  obtain y where y: "with_last n x ?f = Inr y" "shape y = shape x"
    "length (data y) = length (data x)"
    "\<forall>j<length (data x). data y ! j = ?f (j mod n) (data x ! j)"
    by blast
  have "Maxout_call h self x = Inr y"
    using Maxout_call_eq[OF assms(1-5)] y(1) by simp
  moreover have "\<forall>j<length (data x). data y ! j =
      Max ((\<lambda>k. data slope ! ((j mod n) * p + k) * data x ! j + data intercept ! k) ` {..<p})"
    using y(4) by (simp only: max_pieces)
  ultimately show ?thesis using y(2,3) by blast
qed

lemma Maxout_relu:
  assumes "tensor_value h self ''slope'' = Inr \<lparr>shape = [1, 2], data = [0, 1]\<rparr>"
    and "tensor_value h self ''intercept'' = Inr \<lparr>shape = [2], data = [0, 0]\<rparr>"
    and "shape x \<noteq> []" and "last (shape x) = 1"
  shows "Maxout_call h self x = Inr (elemwise (\<lambda>v. max 0 v) x)"
proof -
  have "[0..<2] = [0, Suc 0]"
    by (simp add: upt_rec)
  then have "(\<lambda>(j::nat, v::real). Max (set (map (\<lambda>k. v * [0, 1] ! k + [0, 0] ! k) [0..<2]))) =
        (\<lambda>(j, v). max 0 v)"
    by (simp add: fun_eq_iff)
  moreover have "map (\<lambda>(j::nat, v::real). max 0 v) (enumerate 0 (data x)) =
        map (\<lambda>v. max 0 v) (data x)"
    by (simp add: list_eq_iff_nth_eq nth_enumerate_eq)
  ultimately show ?thesis
    using assms by (simp add: Maxout_call_def with_last_def elemwise_def)
qed

subsection \<open>What a constructor and \<^verbatim>\<open>build\<close> leave untouched\<close>

lemma Prelu_init_frame:
  assumes "Prelu_init self h = (res, h')"
  shows "mod_name h' = mod_name h \<and> mod_params h' = mod_params h \<and>
         next_addr h \<le> next_addr h' \<and>
         (\<forall>a. a < next_addr h \<longrightarrow> cells h' a = cells h a) \<and>
         (\<forall>a. next_addr h' \<le> a \<longrightarrow> cells h' a = cells h a) \<and>
         (\<forall>self'. res = Inr self' \<longrightarrow>
            (\<forall>a. next_addr h \<le> a \<and> a < next_addr h' \<longrightarrow> Addr a \<in> set (i_params self')))"
  using assms
  by (auto simp add: Prelu_init_def theano_shared_def alloc_def Let_def split: sum.splits)

lemma LGrelu_init_frame:
  assumes "LGrelu_init self h = (res, h')"
  shows "mod_name h' = mod_name h \<and> mod_params h' = mod_params h \<and>
         next_addr h \<le> next_addr h' \<and>
         (\<forall>a. a < next_addr h \<longrightarrow> cells h' a = cells h a) \<and>
         (\<forall>a. next_addr h' \<le> a \<longrightarrow> cells h' a = cells h a) \<and>
         (\<forall>self'. res = Inr self' \<longrightarrow>
            (\<forall>a. next_addr h \<le> a \<and> a < next_addr h' \<longrightarrow> Addr a \<in> set (i_params self')))"
  using assms
  by (auto simp add: LGrelu_init_def theano_shared_def alloc_def Let_def less_Suc_eq
      split: sum.splits)

lemma Maxout_init_frame:
  assumes "Maxout_init self h = (res, h')"
  shows "mod_name h' = mod_name h \<and> mod_params h' = mod_params h \<and>
         next_addr h \<le> next_addr h' \<and>
         (\<forall>a. a < next_addr h \<longrightarrow> cells h' a = cells h a) \<and>
         (\<forall>a. next_addr h' \<le> a \<longrightarrow> cells h' a = cells h a) \<and>
         (\<forall>self'. res = Inr self' \<longrightarrow>
            (\<forall>a. next_addr h \<le> a \<and> a < next_addr h' \<longrightarrow> Addr a \<in> set (i_params self')))"
  using assms
  by (auto simp add: Maxout_init_def theano_shared_def alloc_def Let_def less_Suc_eq
      split: sum.splits option.splits)

lemma subclass_init_frame:
  assumes "subclass_init c self h = (res, h')"
  shows "mod_name h' = mod_name h \<and> mod_params h' = mod_params h \<and>
         next_addr h \<le> next_addr h' \<and>
         (\<forall>a. a < next_addr h \<longrightarrow> cells h' a = cells h a) \<and>
         (\<forall>a. next_addr h' \<le> a \<longrightarrow> cells h' a = cells h a) \<and>
         (\<forall>self'. res = Inr self' \<longrightarrow>
            (\<forall>a. next_addr h \<le> a \<and> a < next_addr h' \<longrightarrow> Addr a \<in> set (i_params self')))"
proof (cases c)
  case Base
  with assms show ?thesis by (auto simp add: subclass_init_def)
next
  case Prelu
  with assms show ?thesis
    using Prelu_init_frame[of self h res h'] by (simp add: subclass_init_def)
next
  case LGrelu
  with assms show ?thesis
    using LGrelu_init_frame[of self h res h'] by (simp add: subclass_init_def)
next
  case Maxout
  with assms show ?thesis
    using Maxout_init_frame[of self h res h'] by (simp add: subclass_init_def)
qed

lemma new_frame:
  assumes ok: "heap_ok h" and new: "new c nm l kw h = (res, h')"
  shows "mod_name h' = mod_name h \<and> mod_params h' = mod_params h \<and>
         (\<forall>a. a < next_addr h \<longrightarrow> cells h' a = cells h a) \<and>
         heap_ok h' \<and>
         (\<forall>act. res = Inr act \<longrightarrow> act = Addr (next_addr h) \<and>
            (\<exists>self. cells h' (next_addr h) = Some (Instance self) \<and>
               (\<forall>a. cells h a = None \<and> cells h' a \<noteq> None \<longrightarrow>
                  a = next_addr h \<or> Addr a \<in> set (i_params self))))"
proof -
  define self where "self = Activation_init c nm l kw"
  define h0 where "h0 = snd (alloc (Instance self) h)"
  obtain r1 h1 where init: "subclass_init c self h0 = (r1, h1)"
    by (cases "subclass_init c self h0")
  note fr = subclass_init_frame[OF init]
  have h0: "next_addr h0 = Suc (next_addr h)" "mod_name h0 = mod_name h"
    "mod_params h0 = mod_params h"
    "cells h0 = (cells h)(next_addr h \<mapsto> Instance self)"
    by (simp_all add: h0_def alloc_def)
  show ?thesis
  proof (cases r1)
    case (Inl e)
    with new init have "res = Inl e" "h' = h1"
      by (simp_all add: new_def Let_def self_def h0_def)
    with fr h0 ok show ?thesis
      by (auto simp add: heap_ok_def)
  next
    case (Inr self')
    with new init have res: "res = Inr (Addr (next_addr h))"
      and h': "h' = store (next_addr h) (Instance self') h1"
      by (simp_all add: new_def Let_def self_def h0_def)
    have "\<And>a. cells h a = None \<Longrightarrow> cells h' a \<noteq> None \<Longrightarrow> a \<noteq> next_addr h \<Longrightarrow>
            Addr a \<in> set (i_params self')"
    proof -
      fix a assume a: "cells h a = None" "cells h' a \<noteq> None" "a \<noteq> next_addr h"
      have "Suc (next_addr h) \<le> a \<and> a < next_addr h1"
      proof (rule ccontr)
        assume "\<not> (Suc (next_addr h) \<le> a \<and> a < next_addr h1)"
        then have "a < next_addr h0 \<or> next_addr h1 \<le> a" using h0 by auto
        then have "cells h1 a = cells h0 a" using fr by auto
        with a h0 h' show False by (simp add: store_def)
      qed
      with fr Inr h0 show "Addr a \<in> set (i_params self')" by auto
    qed
    with fr h0 ok res h' show ?thesis
      by (auto simp add: heap_ok_def store_def)
  qed
qed

lemma run_frame: "snd (run c x h) = h"
proof (induction c arbitrary: x h)
  case (Composed f g)
  obtain r1 h1 where r: "run f x h = (r1, h1)"
    by (cases "run f x h")
  with Composed.IH(1)[of x h] have "h1 = h" by simp
  with r Composed.IH(2) show ?case by (cases r1) simp_all
qed (simp_all split: option.splits obj.splits)

lemma call_frame: "snd (call r x h) = h"
  by (simp add: call_def run_frame)

lemma build_frame:
  assumes ok: "heap_ok h" and b: "build registry nm lay kw h = (res, h')"
  shows "heap_ok h' \<and>
         (\<forall>r. lookup h r \<noteq> None \<and> res \<noteq> Inr r \<longrightarrow> lookup h' r = lookup h r) \<and>
         (\<forall>act a. res = Inr act \<and> cells h a = None \<and> cells h' a \<noteq> None \<longrightarrow>
            Addr a = act \<or> (\<exists>ps. get_params h' act = Inr ps \<and> Addr a \<in> set ps))"
proof (cases lay)
  case None
  with b ok show ?thesis by (auto simp add: build_no_layer)
next
  case (Some l)
  show ?thesis
  proof (cases nm)
    case (Obj r)
    with b Some ok show ?thesis
      by (auto simp add: build_obj split: option.splits obj.splits)
  next
    case (Key s)
    show ?thesis
    proof (cases "CHR ''+'' \<in> set s")
      case True
      with b Some Key ok show ?thesis by (auto simp add: build_plus)
    next
      case plus: False
      show ?thesis
      proof (cases "act_table s")
        case (Some e)
        show ?thesis
        proof (cases e)
          case (Global m)
          with b \<open>lay = Some l\<close> Key plus Some have
            "res = Inr (Mod m)" "cells h' = cells h" "next_addr h' = next_addr h"
            "\<And>m'. m' \<noteq> m \<Longrightarrow> lookup h' (Mod m') = lookup h (Mod m')"
            by (auto simp add: build_global)
          with ok show ?thesis
            by (auto simp add: heap_ok_def, case_tac r, auto)
        next
          case (Fresh f)
          with b \<open>lay = Some l\<close> Key plus Some have
            res: "res = Inr (Addr (next_addr h))" and
            h': "h' = h\<lparr>next_addr := Suc (next_addr h),
                      cells := (cells h)(next_addr h \<mapsto>
                        Function (Lambda f) (Some (NStr s)) (Some []))\<rparr>"
            by (simp_all add: build_fresh)
          have "\<And>r. lookup h r \<noteq> None \<Longrightarrow> lookup h' r = lookup h r"
          proof -
            fix r assume r: "lookup h r \<noteq> None"
            show "lookup h' r = lookup h r"
            proof (cases r)
              case (Mod m)
              with h' show ?thesis by simp
            next
              case (Addr a)
              with r ok have "a \<noteq> next_addr h"
                by (auto simp add: heap_ok_def)
              with h' Addr show ?thesis by simp
            qed
          qed
          moreover have "heap_ok h'"
            using ok h' by (simp add: heap_ok_def)
          ultimately show ?thesis using res h'
            by (auto split: if_splits)
        qed
      next
        case None
        with b Some Key plus have ab: "Activation_build registry s (NStr s) l kw h = (res, h')"
          by (simp add: build_registry)
        show ?thesis
        proof (cases "registry s")
          case None
          with ab ok show ?thesis by (auto simp add: Activation_build_def)
        next
          case (Some c)
          with ab have n: "new c (NStr s) l kw h = (res, h')"
            by (simp add: Activation_build_def)
          note fr = new_frame[OF ok n]
          have "\<And>r. lookup h r \<noteq> None \<Longrightarrow> res \<noteq> Inr r \<Longrightarrow> lookup h' r = lookup h r"
          proof -
            fix r assume r: "lookup h r \<noteq> None" "res \<noteq> Inr r"
            show "lookup h' r = lookup h r"
            proof (cases r)
              case (Mod m)
              with fr show ?thesis by simp
            next
              case (Addr a)
              with r ok have "a < next_addr h"
                by (auto simp add: heap_ok_def not_le[symmetric])
              with fr Addr show ?thesis by simp
            qed
          qed
          moreover have "\<And>act a. res = Inr act \<Longrightarrow> cells h a = None \<Longrightarrow>
            cells h' a \<noteq> None \<Longrightarrow>
            Addr a = act \<or> (\<exists>ps. get_params h' act = Inr ps \<and> Addr a \<in> set ps)"
            using fr by (auto simp add: get_params_def)
          ultimately show ?thesis using fr by blast
        qed
      qed
    qed
  qed
qed

subsection \<open>\<^verbatim>\<open>compose\<close>\<close>

lemma get_name_alloc:
  assumes "heap_ok h" and "get_name h r = Inr n"
  shows "get_name (snd (alloc ob h)) r = Inr n"
proof (cases r)
  case (Mod m)
  with assms show ?thesis by (simp add: get_name_def alloc_def)
next
  case (Addr a)
  with assms have "a \<noteq> next_addr h"
    by (auto simp add: heap_ok_def get_name_def)
  with assms Addr show ?thesis by (simp add: get_name_def alloc_def)
qed

lemma compose_named:
  assumes "heap_ok h" and "get_name h a = Inr an" and "get_name h b = Inr bn"
  shows "compose a b h =
     (Inr (Addr (next_addr h)),
      h\<lparr>next_addr := Suc (next_addr h),
        cells := (cells h)(next_addr h \<mapsto>
          Function (Composed (code_of h a) (code_of h b))
            (Some (NList [NStr (py_str bn @ ''('' @ py_str an @ '')'')])) None)\<rparr>)"
proof -
  let ?ob = "Function (Composed (code_of h a) (code_of h b)) None None"
  have "get_name (snd (alloc ?ob h)) a = Inr an" "get_name (snd (alloc ?ob h)) b = Inr bn"
    using assms by (simp_all add: get_name_alloc)
  then show ?thesis
    by (simp add: compose_def alloc_def set_name_def store_def split_def)
qed

lemma compose_no_params:
  assumes "compose a b h = (Inr c, h')"
  shows "get_params h' c = Inl AttributeError"
  using assms
  by (auto simp add: compose_def alloc_def set_name_def store_def get_params_def Let_def
      split: sum.splits)

subsection \<open>The example heaps\<close>

lemma heap_ok_module_heap: "heap_ok module_heap"
  by (simp add: heap_ok_def module_heap_def)

lemma prelu_heap_cells:
  "next_addr prelu_heap = 2"
  "cells prelu_heap 0 =
     Some (Instance \<lparr>i_cls = Prelu, i_name = NStr ''prelu'', i_layer = example_layer,
       i_kwargs = Map.empty, i_params = [Addr (Suc 0)], i_tensors = [''leak'' \<mapsto> Addr (Suc 0)],
       i_pieces = None\<rparr>)"
  "cells prelu_heap (Suc 0) =
     Some (Shared ''hid1.leak'' \<lparr>shape = [3], data = [1 / 10, 1 / 10, 1 / 10]\<rparr>)"
  by (simp_all add: prelu_heap_def new_Prelu example_layer_def module_heap_def
      numeral_3_eq_3)

lemma maxout_heap_cells:
  "next_addr maxout_heap = 3"
  "cells maxout_heap 0 =
     Some (Instance \<lparr>i_cls = Maxout, i_name = NStr ''maxout'', i_layer = example_layer,
       i_kwargs = [''pieces'' \<mapsto> PInt 2], i_params = [Addr (Suc 0), Addr 2],
       i_tensors = [''slope'' \<mapsto> Addr (Suc 0), ''intercept'' \<mapsto> Addr 2],
       i_pieces = Some (PInt 2)\<rparr>)"
  "cells maxout_heap (Suc 0) =
     Some (Shared ''hid1.slope'' \<lparr>shape = [3, 2], data = [1, 1, 1, 1, 1, 1]\<rparr>)"
  "cells maxout_heap 2 =
     Some (Shared ''hid1.intercept'' \<lparr>shape = [2], data = [1, 1]\<rparr>)"
  by (simp_all add: maxout_heap_def new_Maxout[where p = 2] example_layer_def module_heap_def
      eval_nat_numeral)

lemma relu_maxout_heap_cells:
  "cells relu_maxout_heap 0 =
     Some (Instance \<lparr>i_cls = Maxout, i_name = NStr ''maxout'', i_layer = unit_layer,
       i_kwargs = [''pieces'' \<mapsto> PInt 2], i_params = [Addr (Suc 0), Addr 2],
       i_tensors = [''slope'' \<mapsto> Addr (Suc 0), ''intercept'' \<mapsto> Addr 2],
       i_pieces = Some (PInt 2)\<rparr>)"
  "cells relu_maxout_heap (Suc 0) = Some (Shared ''out.slope'' \<lparr>shape = [1, 2], data = [0, 1]\<rparr>)"
  "cells relu_maxout_heap 2 = Some (Shared ''out.intercept'' \<lparr>shape = [2], data = [0, 0]\<rparr>)"
  by (simp_all add: relu_maxout_heap_def new_Maxout[where p = 2] unit_layer_def
      module_heap_def set_value_def store_def eval_nat_numeral)

lemma lgrelu_prelu_heap_cells:
  "next_addr lgrelu_prelu_heap = 5"
  "cells lgrelu_prelu_heap 0 =
     Some (Instance \<lparr>i_cls = LGrelu, i_name = NStr ''lgrelu'', i_layer = example_layer,
       i_kwargs = Map.empty, i_params = [Addr (Suc 0), Addr 2],
       i_tensors = [''gain'' \<mapsto> Addr (Suc 0), ''leak'' \<mapsto> Addr 2], i_pieces = None\<rparr>)"
  "cells lgrelu_prelu_heap 3 =
     Some (Instance \<lparr>i_cls = Prelu, i_name = NStr ''prelu'', i_layer = example_layer,
       i_kwargs = Map.empty, i_params = [Addr 4], i_tensors = [''leak'' \<mapsto> Addr 4],
       i_pieces = None\<rparr>)"
  "heap_ok lgrelu_prelu_heap"
  by (simp_all add: lgrelu_prelu_heap_def new_LGrelu new_Prelu example_layer_def
      module_heap_def heap_ok_def eval_nat_numeral)

lemma act_table_tanh_relu:
  "act_table ''tanh'' = Some (Global TT_tanh)" "act_table ''relu'' = Some (Fresh Relu)"
  by (simp_all add: act_table_def)

lemma tanh_relu_heap_eq:
  "tanh_relu_heap =
     \<lparr>mod_name = (\<lambda>m. None)(TT_tanh \<mapsto> NStr ''tanh''),
      mod_params = (\<lambda>m. None)(TT_tanh \<mapsto> []),
      next_addr = Suc 0,
      cells = [0 \<mapsto> Function (Lambda Relu) (Some (NStr ''relu'')) (Some [])]\<rparr>"
  by (simp add: tanh_relu_heap_def build_global build_fresh act_table_tanh_relu
      module_heap_def)

subsection \<open>Composition\<close>

text \<open>
  C1.  The claim: for every layer and every tensor \<open>x\<close>, \<^verbatim>\<open>build("tanh+relu", layer)\<close>
  returns an activation whose transform is \<open>relu(tanh(x))\<close>.  The code does not return:
  the branch for names with a \<^verbatim>\<open>+\<close> calls \<^verbatim>\<open>build(n)\<close> without the layer, so
  for every registry, layer, keyword arguments and heap the call raises \<^verbatim>\<open>TypeError\<close>
  and leaves the heap as it was.
\<close>

theorem build_tanh_relu_raises:
  "build registry (Key ''tanh+relu'') (Some l) kw h = (Inl TypeError, h)"
  by (simp add: build_plus)

theorem build_tanh_relu_raises_witness:
  "build module_registry (Key ''tanh+relu'') (Some example_layer) Map.empty module_heap =
     (Inl TypeError, module_heap)"
  using build_tanh_relu_raises[of module_registry example_layer Map.empty module_heap]
  by simp

text \<open>
  C2.  The claim: a composition made by \<^verbatim>\<open>build\<close> has the parameters of its first
  activation followed by those of its second.  In the code, \<^verbatim>\<open>build\<close> of two names
  joined by \<^verbatim>\<open>+\<close> raises \<^verbatim>\<open>TypeError\<close>, whatever the names; and \<^verbatim>\<open>compose\<close> itself,
  whenever it returns, returns a function object on which \<^verbatim>\<open>params\<close> is not set, so
  that reading it raises \<^verbatim>\<open>AttributeError\<close>.
\<close>

theorem composed_has_no_params:
  "build registry (Key (s @ ''+'' @ t)) (Some l) kw h = (Inl TypeError, h) \<and>
   (compose a b g = (Inr c, g') \<longrightarrow> get_params g' c = Inl AttributeError)"
  by (simp add: build_plus compose_no_params)

theorem composed_has_no_params_witness:
  "get_params lgrelu_prelu_heap (Addr 0) = Inr [Addr 1, Addr 2] \<and>
   get_params lgrelu_prelu_heap (Addr 3) = Inr [Addr 4] \<and>
   fst (compose (Addr 0) (Addr 3) lgrelu_prelu_heap) = Inr (Addr 5) \<and>
   get_params (snd (compose (Addr 0) (Addr 3) lgrelu_prelu_heap)) (Addr 5) =
     Inl AttributeError"
proof -
  have names: "get_name lgrelu_prelu_heap (Addr 0) = Inr (NStr ''lgrelu'')"
    "get_name lgrelu_prelu_heap (Addr 3) = Inr (NStr ''prelu'')"
    by (simp_all add: get_name_def lgrelu_prelu_heap_cells)
  have c: "fst (compose (Addr 0) (Addr 3) lgrelu_prelu_heap) = Inr (Addr 5)"
    by (simp add: compose_named[OF lgrelu_prelu_heap_cells(4) names]
        lgrelu_prelu_heap_cells(1))
  then have "compose (Addr 0) (Addr 3) lgrelu_prelu_heap =
      (Inr (Addr 5), snd (compose (Addr 0) (Addr 3) lgrelu_prelu_heap))"
    by (simp add: prod_eq_iff)
  with composed_has_no_params[of Map.empty "''lgrelu''" "''prelu''" example_layer Map.empty
      module_heap "Addr 0" "Addr 3" lgrelu_prelu_heap "Addr 5"
      "snd (compose (Addr 0) (Addr 3) lgrelu_prelu_heap)"]
  have "get_params (snd (compose (Addr 0) (Addr 3) lgrelu_prelu_heap)) (Addr 5) =
      Inl AttributeError"
    by simp
  with c show ?thesis
    by (simp add: get_params_def lgrelu_prelu_heap_cells)
qed

text \<open>
  C3.  The claim: the name of a composition made by \<^verbatim>\<open>build\<close> is the string
  \<^verbatim>\<open>"<b.name>(<a.name>)"\<close>.  In the code, \<^verbatim>\<open>build\<close> of two names joined by \<^verbatim>\<open>+\<close>
  raises \<^verbatim>\<open>TypeError\<close>; and \<^verbatim>\<open>compose\<close>, given two activations that have names,
  returns a function object whose \<^verbatim>\<open>name\<close> is a list with that string as its only
  element, not the string.
\<close>

theorem composed_name_is_list:
  "build registry (Key (s @ ''+'' @ t)) (Some l) kw h = (Inl TypeError, h) \<and>
   (heap_ok g \<and> get_name g a = Inr an \<and> get_name g b = Inr bn \<longrightarrow>
      (\<exists>c g'. compose a b g = (Inr c, g') \<and>
         get_name g' c = Inr (NList [NStr (py_str bn @ ''('' @ py_str an @ '')'')])))"
  by (simp add: build_plus compose_named get_name_def)

theorem composed_name_is_list_witness:
  "get_name tanh_relu_heap (Mod TT_tanh) = Inr (NStr ''tanh'') \<and>
   get_name tanh_relu_heap (Addr 0) = Inr (NStr ''relu'') \<and>
   fst (compose (Mod TT_tanh) (Addr 0) tanh_relu_heap) = Inr (Addr 1) \<and>
   get_name (snd (compose (Mod TT_tanh) (Addr 0) tanh_relu_heap)) (Addr 1) =
     Inr (NList [NStr ''relu(tanh)''])"
proof -
  have ok: "heap_ok tanh_relu_heap"
    by (simp add: tanh_relu_heap_eq heap_ok_def)
  have names: "get_name tanh_relu_heap (Mod TT_tanh) = Inr (NStr ''tanh'')"
    "get_name tanh_relu_heap (Addr 0) = Inr (NStr ''relu'')"
    by (simp_all add: get_name_def tanh_relu_heap_eq)
  from composed_name_is_list[of Map.empty "''tanh''" "''relu''" example_layer Map.empty
      module_heap tanh_relu_heap "Mod TT_tanh" "NStr ''tanh''" "Addr 0" "NStr ''relu''"]
    ok names
  obtain c g' where c: "compose (Mod TT_tanh) (Addr 0) tanh_relu_heap = (Inr c, g')"
    "get_name g' c = Inr (NList [NStr ''relu(tanh)''])"
    by auto
  moreover have "c = Addr 1"
    using c(1) compose_named[OF ok names] by (simp add: tanh_relu_heap_eq)
  ultimately show ?thesis using names by simp
qed

subsection \<open>Effects\<close>

text \<open>
  C4.  Building an activation and applying one are free of side effects.  From a heap
  that satisfies the allocator's invariant, \<^verbatim>\<open>build\<close> keeps the invariant and changes
  no object that existed before, except the activation it returns (a key of the table
  that names a module-level callable returns that callable, with its \<^verbatim>\<open>name\<close> and
  \<^verbatim>\<open>params\<close> set); when it returns an activation, every object it has allocated is
  that activation or one of its \<^verbatim>\<open>params\<close>.  Applying an activation to a tensor
  returns the heap it was given: no learnable tensor and nothing else is changed.
\<close>

theorem build_and_call_frame:
  "(heap_ok h \<and> build registry nm lay kw h = (res, h') \<longrightarrow>
      heap_ok h' \<and>
      (\<forall>r. lookup h r \<noteq> None \<and> res \<noteq> Inr r \<longrightarrow> lookup h' r = lookup h r) \<and>
      (\<forall>act a. res = Inr act \<and> cells h a = None \<and> cells h' a \<noteq> None \<longrightarrow>
         Addr a = act \<or> (\<exists>ps. get_params h' act = Inr ps \<and> Addr a \<in> set ps))) \<and>
   snd (call r x g) = g"
  using build_frame[of h registry nm lay kw res h'] call_frame[of r x g] by blast

text \<open>
  An instance: on the heap that holds the \<^verbatim>\<open>Prelu\<close> at address 0 with its \<^verbatim>\<open>leak\<close>
  at address 1, \<^verbatim>\<open>build('logistic', layer)\<close> returns the module-level sigmoid and
  leaves both objects and the module-level \<^verbatim>\<open>tanh\<close> as they were; applying the
  \<^verbatim>\<open>Prelu\<close> leaves the heap as it was.
\<close>

theorem build_and_call_frame_witness:
  "heap_ok prelu_heap \<and>
   fst (build module_registry (Key ''logistic'') (Some example_layer) Map.empty prelu_heap) =
     Inr (Mod TT_nnet_sigmoid) \<and>
   lookup (snd (build module_registry (Key ''logistic'') (Some example_layer) Map.empty
       prelu_heap)) (Addr 0) = lookup prelu_heap (Addr 0) \<and>
   lookup (snd (build module_registry (Key ''logistic'') (Some example_layer) Map.empty
       prelu_heap)) (Addr 1) = lookup prelu_heap (Addr 1) \<and>
   lookup (snd (build module_registry (Key ''logistic'') (Some example_layer) Map.empty
       prelu_heap)) (Mod TT_tanh) = lookup prelu_heap (Mod TT_tanh) \<and>
   snd (call (Addr 0) \<lparr>shape = [3], data = [- 1, 0, 2]\<rparr> prelu_heap) = prelu_heap"
proof -
  let ?b = "build module_registry (Key ''logistic'') (Some example_layer) Map.empty prelu_heap"
  have ok: "heap_ok prelu_heap"
    by (simp add: prelu_heap_def new_Prelu example_layer_def module_heap_def heap_ok_def)
  have tab: "act_table ''logistic'' = Some (Global TT_nnet_sigmoid)"
    by (simp add: act_table_def)
  have res: "fst ?b = Inr (Mod TT_nnet_sigmoid)"
    by (simp add: build_global tab)
  then have b: "?b = (Inr (Mod TT_nnet_sigmoid), snd ?b)"
    by (simp add: prod_eq_iff)
  have ex: "lookup prelu_heap (Addr 0) \<noteq> None" "lookup prelu_heap (Addr 1) \<noteq> None"
    "lookup prelu_heap (Mod TT_tanh) \<noteq> None"
    by (simp_all add: prelu_heap_cells)
  from build_and_call_frame[of prelu_heap module_registry "Key ''logistic''"
      "Some example_layer" Map.empty "Inr (Mod TT_nnet_sigmoid)" "snd ?b"
      "Addr 0" "\<lparr>shape = [3], data = [- 1, 0, 2]\<rparr>" prelu_heap] ok b
  have fr: "\<forall>r. lookup prelu_heap r \<noteq> None \<and> Inr (Mod TT_nnet_sigmoid) \<noteq> (Inr r :: error + ref)
        \<longrightarrow> lookup (snd ?b) r = lookup prelu_heap r"
    and cl: "snd (call (Addr 0) \<lparr>shape = [3], data = [- 1, 0, 2]\<rparr> prelu_heap) = prelu_heap"
    by simp_all
  have "lookup (snd ?b) (Addr 0) = lookup prelu_heap (Addr 0)"
    using spec[OF fr, of "Addr 0"] ex(1) by (simp del: lookup.simps)
  moreover have "lookup (snd ?b) (Addr 1) = lookup prelu_heap (Addr 1)"
    using spec[OF fr, of "Addr 1"] ex(2) by (simp del: lookup.simps)
  moreover have "lookup (snd ?b) (Mod TT_tanh) = lookup prelu_heap (Mod TT_tanh)"
    using spec[OF fr, of "Mod TT_tanh"] ex(3) by (simp del: lookup.simps)
  ultimately show ?thesis using ok res cl by (simp del: lookup.simps)
qed

subsection \<open>Errors\<close>

text \<open>
  C5, as the claim states it, fails: the constructor of \<^verbatim>\<open>Maxout\<close> does not check the
  piece count, and a count of 0 is accepted (numpy makes arrays with an axis of length
  0).  On the layer of three units \<^verbatim>\<open>Maxout('maxout', layer, pieces=0)\<close> returns the
  instance at address 0.
\<close>

theorem maxout_zero_pieces_accepted:
  "fst (new Maxout (NStr ''maxout'') example_layer [''pieces'' \<mapsto> PInt 0] module_heap) =
     Inr (Addr 0)"
  by (simp add: new_Maxout[where p = 0] example_layer_def module_heap_def)

text \<open>
  C5, amended.  Constructing a \<^verbatim>\<open>Maxout\<close> fails, at construction time, when the
  keyword \<^verbatim>\<open>pieces\<close> is absent (\<^verbatim>\<open>KeyError\<close>), when it is not an integer
  (\<^verbatim>\<open>TypeError\<close>, from the allocation of the arrays) and when it is a negative integer
  (\<^verbatim>\<open>ValueError\<close>, from the same place).
\<close>

theorem maxout_config_errors:
  "(kw ''pieces'' = None \<longrightarrow> fst (new Maxout nm l kw h) = Inl (KeyError ''pieces'')) \<and>
   (kw ''pieces'' = Some v \<and> \<not> is_int v \<longrightarrow> fst (new Maxout nm l kw h) = Inl TypeError) \<and>
   (kw ''pieces'' = Some (PInt p) \<and> p < 0 \<longrightarrow> fst (new Maxout nm l kw h) = Inl ValueError)"
  by (simp add: new_Maxout_no_pieces new_Maxout_not_int new_Maxout_negative)

theorem maxout_config_errors_witness:
  "fst (new Maxout (NStr ''maxout'') example_layer Map.empty module_heap) =
     Inl (KeyError ''pieces'') \<and>
   fst (new Maxout (NStr ''maxout'') example_layer [''pieces'' \<mapsto> PStr ''two''] module_heap) =
     Inl TypeError \<and>
   fst (new Maxout (NStr ''maxout'') example_layer [''pieces'' \<mapsto> PInt (- 1)] module_heap) =
     Inl ValueError"
  using maxout_config_errors[of Map.empty "NStr ''maxout''" example_layer module_heap
      "PStr ''two''" "- 1"]
    maxout_config_errors[of "[''pieces'' \<mapsto> PStr ''two'']" "NStr ''maxout''" example_layer
      module_heap "PStr ''two''" "- 1"]
    maxout_config_errors[of "[''pieces'' \<mapsto> PInt (- 1)]" "NStr ''maxout''" example_layer
      module_heap "PStr ''two''" "- 1"]
  by simp

text \<open>
  C6.  A key is a name that \<^verbatim>\<open>build\<close> looks up: a name with a \<^verbatim>\<open>+\<close> is a chain of
  keys, split before any lookup.  For every key that is neither in the table of
  functions nor in the registry, \<^verbatim>\<open>build\<close> fails with the unknown-activation error
  that carries the key, and the heap is as it was: nothing is allocated, no learnable
  tensor in particular, and nothing is changed.
\<close>

theorem build_unknown_key:
  "CHR ''+'' \<notin> set s \<and> act_table s = None \<and> registry s = None \<longrightarrow>
     build registry (Key s) (Some l) kw h = (Inl (UnknownActivation s), h)"
  by (simp add: build_registry Activation_build_def)

theorem build_unknown_key_witness:
  "CHR ''+'' \<notin> set ''bogus'' \<and> act_table ''bogus'' = None \<and>
   module_registry ''bogus'' = None \<and>
   build module_registry (Key ''bogus'') (Some example_layer) Map.empty module_heap =
     (Inl (UnknownActivation ''bogus''), module_heap)"
  using build_unknown_key[of "''bogus''" module_registry example_layer Map.empty module_heap]
  by (simp add: act_table_def module_registry_def)

subsection \<open>The clipping rectifiers\<close>

lemma rect_max_cases: "(1 + v - \<bar>v - 1\<bar>) / 2 = (if v \<le> 1 then v else (1::real))"
  by simp

lemma rect_minmax_cases:
  "(1 + \<bar>v\<bar> - \<bar>v - 1\<bar>) / 2 = (if v < 0 then 0 else if v \<le> 1 then v else (1::real))"
  by simp

lemma act_table_rect:
  "act_table ''rect:max'' = Some (Fresh Rect_max)"
  "act_table ''rect:minmax'' = Some (Fresh Rect_minmax)"
  by (simp_all add: act_table_def)

text \<open>
  C9.  \<^verbatim>\<open>build\<close> resolves \<^verbatim>\<open>rect:max\<close> and \<^verbatim>\<open>rect:minmax\<close>, and the activation it
  returns maps every element \<open>v\<close> of every tensor as the claim says: \<^verbatim>\<open>rect:max\<close>
  gives \<open>v\<close> when \<open>v \<le> 1\<close> and \<open>1\<close> when \<open>v > 1\<close>; \<^verbatim>\<open>rect:minmax\<close> gives \<open>0\<close> when
  \<open>v < 0\<close>, \<open>v\<close> when \<open>0 \<le> v \<le> 1\<close> and \<open>1\<close> when \<open>v > 1\<close>.
\<close>

theorem rect_max_minmax_clip:
  "(\<exists>act h'. build registry (Key ''rect:max'') (Some l) kw h = (Inr act, h') \<and>
      call act x h' = (Inr (elemwise (\<lambda>v. if v \<le> 1 then v else 1) x), h')) \<and>
   (\<exists>act h'. build registry (Key ''rect:minmax'') (Some l) kw h = (Inr act, h') \<and>
      call act x h' =
        (Inr (elemwise (\<lambda>v. if v < 0 then 0 else if v \<le> 1 then v else 1) x), h'))"
  by (simp add: build_fresh act_table_rect call_def code_of_def elemwise_def
      rect_max_cases rect_minmax_cases)

theorem rect_max_minmax_clip_witness:
  "(\<exists>act h'. build module_registry (Key ''rect:max'') (Some example_layer) Map.empty
        module_heap = (Inr act, h') \<and>
      call act \<lparr>shape = [4], data = [- 1, 1 / 2, 1, 3]\<rparr> h' =
        (Inr \<lparr>shape = [4], data = [- 1, 1 / 2, 1, 1]\<rparr>, h')) \<and>
   (\<exists>act h'. build module_registry (Key ''rect:minmax'') (Some example_layer) Map.empty
        module_heap = (Inr act, h') \<and>
      call act \<lparr>shape = [4], data = [- 1, 1 / 2, 1, 3]\<rparr> h' =
        (Inr \<lparr>shape = [4], data = [0, 1 / 2, 1, 1]\<rparr>, h'))"
  using rect_max_minmax_clip[of module_registry example_layer Map.empty module_heap
      "\<lparr>shape = [4], data = [- 1, 1 / 2, 1, 3]\<rparr>"]
  by (simp add: elemwise_def)

subsection \<open>The leaky rectifier\<close>

text \<open>
  C8.  For a layer of \<open>n > 0\<close> units the constructor of \<^verbatim>\<open>Prelu\<close> succeeds and the
  instance has exactly one learnable tensor, \<^verbatim>\<open>leak\<close>, named by the layer, of shape
  \<open>(n,)\<close> with every entry \<open>0.1\<close>.  Applied to a tensor whose last axis has the length of
  \<^verbatim>\<open>leak\<close>, whatever the values that \<^verbatim>\<open>leak\<close> holds by then (both arrays
  well-formed, as all arrays are), the transform succeeds,
  keeps the shape, and maps every element \<open>v\<close> of unit \<open>i\<close> to \<open>v\<close> when \<open>v \<ge> 0\<close> and
  to \<open>leak[i] * v\<close> when \<open>v < 0\<close>.
\<close>

theorem prelu_leak_and_transform:
  "(0 < layer_size l \<longrightarrow>
      (\<exists>act self leak h'.
         new Prelu nm l kw h = (Inr act, h') \<and>
         lookup h' act = Some (Instance self) \<and> i_cls self = Prelu \<and>
         i_params self = [leak] \<and> i_tensors self ''leak'' = Some leak \<and>
         lookup h' leak =
           Some (Shared (layer_fmt l ''leak'')
             \<lparr>shape = [nat (layer_size l)],
              data = replicate (nat (layer_size l)) (1 / 10)\<rparr>))) \<and>
   (lookup g r = Some (Instance self) \<and> i_cls self = Prelu \<and>
    tensor_value g self ''leak'' = Inr lk \<and> well_formed lk \<and> shape lk = [n] \<and>
    well_formed x \<and> shape x \<noteq> [] \<and> last (shape x) = n \<longrightarrow>
      (\<exists>y. call r x g = (Inr y, g) \<and> shape y = shape x \<and>
         length (data y) = length (data x) \<and>
         (\<forall>j<length (data x). data y ! j =
            (if 0 \<le> data x ! j then data x ! j else data lk ! (j mod n) * data x ! j))))"
proof (intro conjI impI)
  assume "0 < layer_size l"
  then show "\<exists>act self leak h'.
         new Prelu nm l kw h = (Inr act, h') \<and>
         lookup h' act = Some (Instance self) \<and> i_cls self = Prelu \<and>
         i_params self = [leak] \<and> i_tensors self ''leak'' = Some leak \<and>
         lookup h' leak =
           Some (Shared (layer_fmt l ''leak'')
             \<lparr>shape = [nat (layer_size l)],
              data = replicate (nat (layer_size l)) (1 / 10)\<rparr>)"
    by (simp add: new_Prelu)
next
  assume a: "lookup g r = Some (Instance self) \<and> i_cls self = Prelu \<and>
    tensor_value g self ''leak'' = Inr lk \<and> well_formed lk \<and> shape lk = [n] \<and>
    well_formed x \<and> shape x \<noteq> [] \<and> last (shape x) = n"
  then have "call r x g = (Prelu_call g self x, g)"
    by (simp add: call_Instance method_call_def)
  with a Prelu_call_data[of g self lk n x]
  show "\<exists>y. call r x g = (Inr y, g) \<and> shape y = shape x \<and>
         length (data y) = length (data x) \<and>
         (\<forall>j<length (data x). data y ! j =
            (if 0 \<le> data x ! j then data x ! j else data lk ! (j mod n) * data x ! j))"
    by simp
qed

text \<open>
  An instance: the \<^verbatim>\<open>Prelu\<close> of the layer of three units, applied to two rows.
\<close>

theorem prelu_leak_and_transform_witness:
  "fst (new Prelu (NStr ''prelu'') example_layer Map.empty module_heap) = Inr (Addr 0) \<and>
   get_params prelu_heap (Addr 0) = Inr [Addr 1] \<and>
   lookup prelu_heap (Addr 1) =
     Some (Shared ''hid1.leak'' \<lparr>shape = [3], data = [1 / 10, 1 / 10, 1 / 10]\<rparr>) \<and>
   (\<exists>y. call (Addr 0) \<lparr>shape = [2, 3], data = [- 1, 0, 2, - 3, 4, - 5]\<rparr> prelu_heap =
          (Inr y, prelu_heap) \<and>
        shape y = [2, 3] \<and> data y ! 0 = - 1 / 10 \<and> data y ! 1 = 0 \<and>
        data y ! 4 = 4 \<and> data y ! 5 = - 1 / 2)"
proof -
  let ?x = "\<lparr>shape = [2, 3], data = [- 1, 0, 2, - 3, 4, - 5]\<rparr>"
  let ?lk = "\<lparr>shape = [3], data = [1 / 10, 1 / 10, 1 / (10::real)]\<rparr>"
  let ?self = "\<lparr>i_cls = Prelu, i_name = NStr ''prelu'', i_layer = example_layer,
       i_kwargs = Map.empty, i_params = [Addr (Suc 0)],
       i_tensors = [''leak'' \<mapsto> Addr (Suc 0)], i_pieces = None\<rparr>"
  have size: "0 < layer_size example_layer"
    by (simp add: example_layer_def)
  have hyp: "lookup prelu_heap (Addr 0) = Some (Instance ?self)" "i_cls ?self = Prelu"
    "tensor_value prelu_heap ?self ''leak'' = Inr ?lk" "well_formed ?lk" "shape ?lk = [3]"
    "well_formed ?x" "shape ?x \<noteq> []" "last (shape ?x) = 3"
    by (simp_all add: prelu_heap_cells tensor_value_def well_formed_def)
  note th = prelu_leak_and_transform[of example_layer "NStr ''prelu''" Map.empty module_heap
      prelu_heap "Addr 0" ?self ?lk 3 ?x]
  from th size have "\<exists>act h'. new Prelu (NStr ''prelu'') example_layer Map.empty module_heap =
      (Inr act, h')"
    by blast
  then have new: "fst (new Prelu (NStr ''prelu'') example_layer Map.empty module_heap) =
      Inr (Addr 0)"
    by (auto simp add: new_Prelu module_heap_def example_layer_def)
  have "\<exists>y. call (Addr 0) ?x prelu_heap = (Inr y, prelu_heap) \<and> shape y = shape ?x \<and>
         length (data y) = length (data ?x) \<and>
         (\<forall>j<length (data ?x). data y ! j =
            (if 0 \<le> data ?x ! j then data ?x ! j else data ?lk ! (j mod 3) * data ?x ! j))"
    by (intro mp[OF conjunct2[OF th]] conjI hyp)
  then obtain y where y: "call (Addr 0) ?x prelu_heap = (Inr y, prelu_heap)"
      "shape y = [2, 3]"
      "\<And>j. j < 6 \<Longrightarrow> data y ! j = (if 0 \<le> data ?x ! j then data ?x ! j
          else data ?lk ! (j mod 3) * data ?x ! j)"
    by auto
  have "data y ! 0 = - 1 / 10" "data y ! 1 = 0" "data y ! 4 = 4" "data y ! 5 = - 1 / 2"
    using y(3)[of 0] y(3)[of 1] y(3)[of 4] y(3)[of 5] by simp_all
  with y(1,2) new show ?thesis
    by (simp add: get_params_def prelu_heap_cells)
qed

subsection \<open>Maxout\<close>

text \<open>
  C7.  With an integer piece count \<open>p \<ge> 0\<close> on a layer of \<open>n \<ge> 0\<close> units the
  constructor of \<^verbatim>\<open>Maxout\<close> succeeds and allocates two learnable tensors, named by the
  layer: \<^verbatim>\<open>slope\<close> of shape \<open>(n, p)\<close> and \<^verbatim>\<open>intercept\<close> of shape \<open>(p,)\<close>, both all
  ones.  Applied to a tensor whose last axis has \<open>n\<close> units, with whatever values the
  two tensors hold by then (slope of shape \<open>(n, q)\<close>, intercept of shape \<open>(q,)\<close>,
  \<open>q > 0\<close>, all arrays well-formed), the transform succeeds, keeps the shape, and maps every element \<open>v\<close> of unit
  \<open>i\<close> to the maximum over the pieces \<open>k\<close> of \<open>slope[i, k] * v + intercept[k]\<close>: the
  slope is indexed by the unit and the piece, the intercept by the piece only.  With
  two pieces, slope \<open>[[0, 1]]\<close> and intercept \<open>[0, 0]\<close> on one unit the transform is
  \<open>max(0, v)\<close> on every element.
\<close>

theorem maxout_tensors_and_transform:
  "(0 \<le> layer_size l \<and> kw ''pieces'' = Some (PInt p) \<and> 0 \<le> p \<longrightarrow>
      (\<exists>act self slope intercept h'.
         new Maxout nm l kw h = (Inr act, h') \<and>
         lookup h' act = Some (Instance self) \<and> i_cls self = Maxout \<and>
         i_tensors self ''slope'' = Some slope \<and>
         i_tensors self ''intercept'' = Some intercept \<and>
         slope \<in> set (i_params self) \<and> intercept \<in> set (i_params self) \<and>
         lookup h' slope =
           Some (Shared (layer_fmt l ''slope'')
             \<lparr>shape = [nat (layer_size l), nat p],
              data = replicate (nat (layer_size l) * nat p) 1\<rparr>) \<and>
         lookup h' intercept =
           Some (Shared (layer_fmt l ''intercept'')
             \<lparr>shape = [nat p], data = replicate (nat p) 1\<rparr>))) \<and>
   (lookup g r = Some (Instance self) \<and> i_cls self = Maxout \<and>
    tensor_value g self ''slope'' = Inr S \<and> well_formed S \<and> shape S = [n, q] \<and>
    tensor_value g self ''intercept'' = Inr B \<and> well_formed B \<and> shape B = [q] \<and> 0 < q \<and>
    well_formed x \<and> shape x \<noteq> [] \<and> last (shape x) = n \<longrightarrow>
      (\<exists>y. call r x g = (Inr y, g) \<and> shape y = shape x \<and>
         length (data y) = length (data x) \<and>
         (\<forall>j<length (data x). data y ! j =
            Max ((\<lambda>k. data S ! ((j mod n) * q + k) * data x ! j + data B ! k) ` {..<q})))) \<and>
   (lookup g r = Some (Instance self) \<and> i_cls self = Maxout \<and>
    tensor_value g self ''slope'' = Inr \<lparr>shape = [1, 2], data = [0, 1]\<rparr> \<and>
    tensor_value g self ''intercept'' = Inr \<lparr>shape = [2], data = [0, 0]\<rparr> \<and>
    well_formed x \<and> shape x \<noteq> [] \<and> last (shape x) = 1 \<longrightarrow>
      call r x g = (Inr (elemwise (\<lambda>v. max 0 v) x), g))"
proof (intro conjI impI)
  assume "0 \<le> layer_size l \<and> kw ''pieces'' = Some (PInt p) \<and> 0 \<le> p"
  then show "\<exists>act self slope intercept h'.
         new Maxout nm l kw h = (Inr act, h') \<and>
         lookup h' act = Some (Instance self) \<and> i_cls self = Maxout \<and>
         i_tensors self ''slope'' = Some slope \<and>
         i_tensors self ''intercept'' = Some intercept \<and>
         slope \<in> set (i_params self) \<and> intercept \<in> set (i_params self) \<and>
         lookup h' slope =
           Some (Shared (layer_fmt l ''slope'')
             \<lparr>shape = [nat (layer_size l), nat p],
              data = replicate (nat (layer_size l) * nat p) 1\<rparr>) \<and>
         lookup h' intercept =
           Some (Shared (layer_fmt l ''intercept'')
             \<lparr>shape = [nat p], data = replicate (nat p) 1\<rparr>)"
    by (simp add: new_Maxout)
next
  assume a: "lookup g r = Some (Instance self) \<and> i_cls self = Maxout \<and>
    tensor_value g self ''slope'' = Inr S \<and> well_formed S \<and> shape S = [n, q] \<and>
    tensor_value g self ''intercept'' = Inr B \<and> well_formed B \<and> shape B = [q] \<and> 0 < q \<and>
    well_formed x \<and> shape x \<noteq> [] \<and> last (shape x) = n"
  then have "call r x g = (Maxout_call g self x, g)"
    by (simp add: call_Instance method_call_def)
  with a Maxout_call_data[of g self S n q B x]
  show "\<exists>y. call r x g = (Inr y, g) \<and> shape y = shape x \<and>
         length (data y) = length (data x) \<and>
         (\<forall>j<length (data x). data y ! j =
            Max ((\<lambda>k. data S ! ((j mod n) * q + k) * data x ! j + data B ! k) ` {..<q}))"
    by simp
next
  assume a: "lookup g r = Some (Instance self) \<and> i_cls self = Maxout \<and>
    tensor_value g self ''slope'' = Inr \<lparr>shape = [1, 2], data = [0, 1]\<rparr> \<and>
    tensor_value g self ''intercept'' = Inr \<lparr>shape = [2], data = [0, 0]\<rparr> \<and>
    well_formed x \<and> shape x \<noteq> [] \<and> last (shape x) = 1"
  then have "call r x g = (Maxout_call g self x, g)"
    by (simp add: call_Instance method_call_def)
  with a Maxout_relu[of g self x]
  show "call r x g = (Inr (elemwise (\<lambda>v. max 0 v) x), g)"
    by simp
qed

text \<open>
  Instances: the \<^verbatim>\<open>Maxout\<close> of two pieces on the layer of three units, as constructed,
  maps \<open>v\<close> to \<open>v + 1\<close>; the one whose tensors the optimizer has set to the slopes
  \<open>[[0, 1]]\<close> and the intercepts \<open>[0, 0]\<close> is the rectifier.
\<close>

theorem maxout_tensors_and_transform_witness:
  "fst (new Maxout (NStr ''maxout'') example_layer [''pieces'' \<mapsto> PInt 2] module_heap) =
     Inr (Addr 0) \<and>
   lookup maxout_heap (Addr 1) =
     Some (Shared ''hid1.slope'' \<lparr>shape = [3, 2], data = [1, 1, 1, 1, 1, 1]\<rparr>) \<and>
   lookup maxout_heap (Addr 2) =
     Some (Shared ''hid1.intercept'' \<lparr>shape = [2], data = [1, 1]\<rparr>) \<and>
   (\<exists>y. call (Addr 0) \<lparr>shape = [3], data = [- 1, 0, 2]\<rparr> maxout_heap = (Inr y, maxout_heap) \<and>
        shape y = [3] \<and> data y ! 0 = 0 \<and> data y ! 1 = 1 \<and> data y ! 2 = 3) \<and>
   call (Addr 0) \<lparr>shape = [4, 1], data = [- 2, 0, 1 / 2, 3]\<rparr> relu_maxout_heap =
     (Inr \<lparr>shape = [4, 1], data = [0, 0, 1 / 2, 3]\<rparr>, relu_maxout_heap)"
proof -
  let ?kw = "[''pieces'' \<mapsto> PInt 2]"
  let ?x = "\<lparr>shape = [3], data = [- 1, 0, 2]\<rparr>"
  let ?S = "\<lparr>shape = [3, 2], data = [1, 1, 1, 1, 1, 1::real]\<rparr>"
  let ?B = "\<lparr>shape = [2], data = [1, 1::real]\<rparr>"
  let ?self = "\<lparr>i_cls = Maxout, i_name = NStr ''maxout'', i_layer = example_layer,
       i_kwargs = ?kw, i_params = [Addr (Suc 0), Addr 2],
       i_tensors = [''slope'' \<mapsto> Addr (Suc 0), ''intercept'' \<mapsto> Addr 2],
       i_pieces = Some (PInt 2)\<rparr>"
  let ?z = "\<lparr>shape = [4, 1], data = [- 2, 0, 1 / 2, 3]\<rparr>"
  let ?self1 = "\<lparr>i_cls = Maxout, i_name = NStr ''maxout'', i_layer = unit_layer,
       i_kwargs = ?kw, i_params = [Addr (Suc 0), Addr 2],
       i_tensors = [''slope'' \<mapsto> Addr (Suc 0), ''intercept'' \<mapsto> Addr 2],
       i_pieces = Some (PInt 2)\<rparr>"
  have cfg: "0 \<le> layer_size example_layer" "?kw ''pieces'' = Some (PInt 2)" "(0::int) \<le> 2"
    by (simp_all add: example_layer_def)
  have hyp: "lookup maxout_heap (Addr 0) = Some (Instance ?self)" "i_cls ?self = Maxout"
    "tensor_value maxout_heap ?self ''slope'' = Inr ?S" "well_formed ?S" "shape ?S = [3, 2]"
    "tensor_value maxout_heap ?self ''intercept'' = Inr ?B" "well_formed ?B" "shape ?B = [2]"
    "(0::nat) < 2" "well_formed ?x" "shape ?x \<noteq> []" "last (shape ?x) = 3"
    by (simp_all add: maxout_heap_cells tensor_value_def well_formed_def)
  have hyp1: "lookup relu_maxout_heap (Addr 0) = Some (Instance ?self1)" "i_cls ?self1 = Maxout"
    "tensor_value relu_maxout_heap ?self1 ''slope'' = Inr \<lparr>shape = [1, 2], data = [0, 1]\<rparr>"
    "tensor_value relu_maxout_heap ?self1 ''intercept'' = Inr \<lparr>shape = [2], data = [0, 0]\<rparr>"
    "well_formed ?z" "shape ?z \<noteq> []" "last (shape ?z) = 1"
    by (simp_all add: relu_maxout_heap_cells tensor_value_def well_formed_def)
  note th = maxout_tensors_and_transform[of example_layer ?kw 2 "NStr ''maxout''" module_heap
      maxout_heap "Addr 0" ?self ?S 3 2 ?B ?x]
  note th1 = maxout_tensors_and_transform[of example_layer ?kw 2 "NStr ''maxout''" module_heap
      relu_maxout_heap "Addr 0" ?self1 ?S 3 2 ?B ?z]
  have "\<exists>act h'. new Maxout (NStr ''maxout'') example_layer ?kw module_heap = (Inr act, h')"
    using mp[OF conjunct1[OF th]] cfg by blast
  then have new: "fst (new Maxout (NStr ''maxout'') example_layer ?kw module_heap) =
      Inr (Addr 0)"
    by (auto simp add: new_Maxout[where p = 2] module_heap_def example_layer_def)
  have "\<exists>y. call (Addr 0) ?x maxout_heap = (Inr y, maxout_heap) \<and> shape y = shape ?x \<and>
         length (data y) = length (data ?x) \<and>
         (\<forall>j<length (data ?x). data y ! j =
            Max ((\<lambda>k. data ?S ! ((j mod 3) * 2 + k) * data ?x ! j + data ?B ! k) ` {..<2}))"
    by (intro mp[OF conjunct1[OF conjunct2[OF th]]] conjI hyp)
  then obtain y where y: "call (Addr 0) ?x maxout_heap = (Inr y, maxout_heap)"
      "shape y = [3]"
      "\<And>j. j < 3 \<Longrightarrow> data y ! j =
          Max ((\<lambda>k. data ?S ! ((j mod 3) * 2 + k) * data ?x ! j + data ?B ! k) ` {..<2})"
    by auto
  have two: "{..<2::nat} = {0, Suc 0}"
    by auto
  have "data y ! 0 = 0" "data y ! 1 = 1" "data y ! 2 = 3"
    using y(3)[of 0] y(3)[of 1] y(3)[of 2] by (simp_all add: two)
  moreover have "call (Addr 0) ?z relu_maxout_heap =
      (Inr (elemwise (\<lambda>v. max 0 v) ?z), relu_maxout_heap)"
    by (intro mp[OF conjunct2[OF conjunct2[OF th1]]] conjI hyp1)
  ultimately show ?thesis using y(1,2) new
    by (simp add: maxout_heap_cells elemwise_def)
qed

text \<open>
  C10.  Whenever the constructor of \<^verbatim>\<open>Maxout\<close> returns, the list \<^verbatim>\<open>params\<close> of the
  instance is the slope followed by the intercept, two distinct shared variables, the
  ones that the attributes \<^verbatim>\<open>slope\<close> and \<^verbatim>\<open>intercept\<close> refer to and that carry the
  layer's names for them.
\<close>

theorem maxout_params_order:
  "new Maxout nm l kw h = (Inr act, h') \<longrightarrow>
     (\<exists>self slope intercept v w.
        lookup h' act = Some (Instance self) \<and>
        i_params self = [slope, intercept] \<and> slope \<noteq> intercept \<and>
        i_tensors self ''slope'' = Some slope \<and>
        i_tensors self ''intercept'' = Some intercept \<and>
        lookup h' slope = Some (Shared (layer_fmt l ''slope'') v) \<and>
        lookup h' intercept = Some (Shared (layer_fmt l ''intercept'') w))"
proof
  assume n: "new Maxout nm l kw h = (Inr act, h')"
  from new_Maxout_success[OF n] obtain p where
    p: "kw ''pieces'' = Some (PInt p)" "0 \<le> p" "0 \<le> layer_size l"
    by blast
  from n new_Maxout[of l kw p nm h] p
  show "\<exists>self slope intercept v w.
        lookup h' act = Some (Instance self) \<and>
        i_params self = [slope, intercept] \<and> slope \<noteq> intercept \<and>
        i_tensors self ''slope'' = Some slope \<and>
        i_tensors self ''intercept'' = Some intercept \<and>
        lookup h' slope = Some (Shared (layer_fmt l ''slope'') v) \<and>
        lookup h' intercept = Some (Shared (layer_fmt l ''intercept'') w)"
    by auto
qed

theorem maxout_params_order_witness:
  "new Maxout (NStr ''maxout'') example_layer [''pieces'' \<mapsto> PInt 2] module_heap =
     (Inr (Addr 0), maxout_heap) \<and>
   get_params maxout_heap (Addr 0) = Inr [Addr 1, Addr 2] \<and>
   (\<exists>v. lookup maxout_heap (Addr 1) = Some (Shared ''hid1.slope'' v)) \<and>
   (\<exists>w. lookup maxout_heap (Addr 2) = Some (Shared ''hid1.intercept'' w))"
proof -
  have n: "new Maxout (NStr ''maxout'') example_layer [''pieces'' \<mapsto> PInt 2] module_heap =
     (Inr (Addr 0), maxout_heap)"
    by (simp add: maxout_heap_def new_Maxout[where p = 2] example_layer_def module_heap_def)
  from mp[OF maxout_params_order n] obtain self slope intercept v w where
    s: "lookup maxout_heap (Addr 0) = Some (Instance self)"
      "i_params self = [slope, intercept]"
      "i_tensors self ''slope'' = Some slope"
      "i_tensors self ''intercept'' = Some intercept"
      "lookup maxout_heap slope = Some (Shared (layer_fmt example_layer ''slope'') v)"
      "lookup maxout_heap intercept = Some (Shared (layer_fmt example_layer ''intercept'') w)"
    by blast
  from s(1,3,4) have "slope = Addr 1" "intercept = Addr 2"
    by (auto simp add: maxout_heap_cells)
  with s n show ?thesis
    by (simp add: get_params_def example_layer_def del: lookup.simps)
qed

end
